theory Spec2Isabelle
  imports Main "HOL-Library.AList"
begin

section \<open>Cells: the tagged value of the interpreter\<close>

text \<open>
  The enumeration \<^verbatim>\<open>Kind\<close>. Each constructor carries the prefix \<open>K\<close>, since
  \<^verbatim>\<open>True\<close>, \<^verbatim>\<open>False\<close>, \<^verbatim>\<open>Not\<close>, \<^verbatim>\<open>Let\<close>, \<^verbatim>\<open>Cons\<close> and \<^verbatim>\<open>List\<close> are names of HOL.
\<close>

datatype Kind =
    KInclude
  | KBegin | KCat | KCons | KCar | KCdr | KList | KLet
  | KDefine | KLambda | KNumber | KName | KExpr | KProc | KFalse | KTrue
  | KCond | KElse | KEnd | KEmpty
  | KQuote | KLp | KRp | KAnd | KNot | KOr
  | KMul | KAdd | KSub | KDiv | KLess | KEqual | KGreater
  | KComment

text \<open>
  \<^verbatim>\<open>Data = variant<string, double, Proc*, List>\<close> and \<^verbatim>\<open>struct Cell { Kind kind; Data data; }\<close>.
  The tag and the payload are independent fields: nothing in the type ties one to the
  other, and the lexer sets the tag of a keyword cell without touching the payload.
  The type \<open>'d\<close> stands for \<^verbatim>\<open>double\<close>; a \<^verbatim>\<open>Proc*\<close> is an index into \<^verbatim>\<open>procs\<close>.
\<close>

datatype 'd Cell = Cell (kind: Kind) (data: "'d Data")
  and 'd Data = DStr string | DNum 'd | DProc nat | DList "'d Cell list"

text \<open>
  What can go wrong. \<open>RuntimeError\<close> is \<^verbatim>\<open>throw runtime_error(msg)\<close>, \<open>BadGet\<close> is the
  \<^verbatim>\<open>boost::bad_get\<close> of a \<^verbatim>\<open>boost::get<T>\<close> on a payload of another type, and \<open>Undefined\<close>
  is a step that C++ leaves undefined, with the reason. \<open>OutOfFuel\<close> belongs to the
  model only: the evaluator below is bounded by a step count.
\<close>

datatype undefined_behaviour =
    EndDeref       \<comment> \<open>reading through an iterator equal to \<^verbatim>\<open>end()\<close>\<close>
  | PastEnd        \<comment> \<open>incrementing an iterator equal to \<^verbatim>\<open>end()\<close>\<close>
  | OutOfRange     \<comment> \<open>\<^verbatim>\<open>v[i]\<close> with \<^verbatim>\<open>i >= v.size()\<close>\<close>
  | InvalidRange   \<comment> \<open>a vector built from an iterator pair \<^verbatim>\<open>{first, last}\<close> with \<^verbatim>\<open>first\<close> after \<^verbatim>\<open>last\<close>\<close>
  | Uninitialised  \<comment> \<open>reading through a pointer that no constructor has set\<close>
  | Dangling       \<comment> \<open>reading through a pointer to an object whose lifetime has ended\<close>

datatype error = RuntimeError string | BadGet | Undefined undefined_behaviour | OutOfFuel

text \<open>
  A member of an object that no constructor has set holds what the memory of the object
  held before. The visitors \<^verbatim>\<open>less_visitor\<close> and \<^verbatim>\<open>equal_visitor\<close> below have two such
  members, \<^verbatim>\<open>double num\<close> and \<^verbatim>\<open>Proc* proc\<close>. What they hold in one visitor object is
  not determined by the program: it is a value of its own for every object built.
  \<open>unset_num\<close> is the \<^verbatim>\<open>double\<close> found in \<^verbatim>\<open>num\<close> and \<open>unset_proc\<close> the address found in
  \<^verbatim>\<open>proc\<close> (of a \<^verbatim>\<open>Proc\<close> or of anything else). \<open>through_unset_proc\<close> is what
  \<^verbatim>\<open>(*proc).body < (*p).body\<close> comes to when it reads through that address: the read
  is undefined, and whether it ends the program or yields some boolean is not determined
  either.
\<close>

record 'd unset =
  unset_num :: 'd
  unset_proc :: nat
  through_unset_proc :: "error + bool"

text \<open>
  The arithmetic and the comparisons of \<^verbatim>\<open>double\<close> are those of the host, and so is
  the extraction \<^verbatim>\<open>*ip >> temp\<close> of a \<^verbatim>\<open>double\<close> from a stream (\<open>dread\<close>: the value
  and the characters left) and its insertion \<^verbatim>\<open>cout << num\<close> (\<open>dshow\<close>). They are taken as
  a parameter, so that every statement below
  holds for IEEE arithmetic as for any other. So is the memory in which \<^verbatim>\<open>apply_prim\<close>
  builds its visitors when the evaluator calls it: \<open>dunset ops args\<close> is what the unset
  members hold in the call on the arguments \<open>args\<close>.
\<close>

record 'd fops =
  dadd :: "'d \<Rightarrow> 'd \<Rightarrow> 'd"
  dsub :: "'d \<Rightarrow> 'd \<Rightarrow> 'd"
  dmul :: "'d \<Rightarrow> 'd \<Rightarrow> 'd"
  ddiv :: "'d \<Rightarrow> 'd \<Rightarrow> 'd"
  dless :: "'d \<Rightarrow> 'd \<Rightarrow> bool"
  dequal :: "'d \<Rightarrow> 'd \<Rightarrow> bool"
  dread :: "string \<Rightarrow> 'd \<times> string"
  dshow :: "'d \<Rightarrow> string"
  dunset :: "'d Cell list \<Rightarrow> 'd unset"

text \<open>
  Integer arithmetic with decimal literals: the instance at which closed examples are
  computed. Its unset members hold zero, and a read through the unset pointer ends the
  program.
\<close>

definition isdigit :: "char \<Rightarrow> bool" where
  "isdigit c \<longleftrightarrow> 48 \<le> (of_char c :: nat) \<and> (of_char c :: nat) \<le> 57"

fun read_digits :: "int \<Rightarrow> string \<Rightarrow> int \<times> string" where
  "read_digits acc [] = (acc, [])"
| "read_digits acc (c # cs) =
     (if isdigit c then read_digits (10 * acc + (of_char c - 48)) cs else (acc, c # cs))"

fun show_nat :: "nat \<Rightarrow> string" where
  "show_nat n =
     (if n < 10 then [char_of (48 + n)] else show_nat (n div 10) @ [char_of (48 + n mod 10)])"

definition show_int :: "int \<Rightarrow> string" where
  "show_int i = (if i < 0 then ''-'' @ show_nat (nat (- i)) else show_nat (nat i))"

definition int_ops :: "int fops" where
  "int_ops = \<lparr>dadd = (+), dsub = (-), dmul = (*), ddiv = (div), dless = (<), dequal = (=),
               dread = read_digits 0, dshow = show_int,
               dunset = (\<lambda>args. \<lparr>unset_num = 0, unset_proc = 0,
                                   through_unset_proc = Inl (Undefined Uninitialised)\<rparr>)\<rparr>"

text \<open>The constructors \<^verbatim>\<open>Cell(Kind)\<close>, \<^verbatim>\<open>Cell()\<close>, \<^verbatim>\<open>Cell(bool)\<close>, \<^verbatim>\<open>Cell(double)\<close>,
  \<^verbatim>\<open>Cell(const string&)\<close>, \<^verbatim>\<open>Cell(Proc*)\<close> and \<^verbatim>\<open>Cell(List)\<close>. A variant that is not
  given a value holds its first alternative, the empty string.\<close>

definition Cell_kind :: "Kind \<Rightarrow> 'd Cell" where
  "Cell_kind k = Cell k (DStr [])"

definition Cell_default :: "'d Cell" where
  "Cell_default = Cell KEnd (DStr [])"

definition Cell_bool :: "bool \<Rightarrow> 'd Cell" where
  "Cell_bool b = Cell_kind (if b then KTrue else KFalse)"

definition Cell_double :: "'d \<Rightarrow> 'd Cell" where
  "Cell_double n = Cell KNumber (DNum n)"

definition Cell_string :: "string \<Rightarrow> 'd Cell" where
  "Cell_string s = Cell KName (DStr s)"

definition Cell_proc :: "nat \<Rightarrow> 'd Cell" where
  "Cell_proc p = Cell KProc (DProc p)"

definition Cell_list :: "'d Cell list \<Rightarrow> 'd Cell" where
  "Cell_list l = Cell KExpr (DList l)"

text \<open>\<^verbatim>\<open>operator bool() { return kind != Kind::False; }\<close>\<close>

definition truthy :: "'d Cell \<Rightarrow> bool" where
  "truthy c = (kind c \<noteq> KFalse)"

text \<open>\<^verbatim>\<open>boost::get<T>(c.data)\<close>, one function for each alternative of the variant.\<close>

definition get_string :: "'d Cell \<Rightarrow> error + string" where
  "get_string c = (case data c of DStr s \<Rightarrow> Inr s | _ \<Rightarrow> Inl BadGet)"

definition get_double :: "'d Cell \<Rightarrow> error + 'd" where
  "get_double c = (case data c of DNum n \<Rightarrow> Inr n | _ \<Rightarrow> Inl BadGet)"

definition get_Proc :: "'d Cell \<Rightarrow> error + nat" where
  "get_Proc c = (case data c of DProc p \<Rightarrow> Inr p | _ \<Rightarrow> Inl BadGet)"

definition get_List :: "'d Cell \<Rightarrow> error + 'd Cell list" where
  "get_List c = (case data c of DList l \<Rightarrow> Inr l | _ \<Rightarrow> Inl BadGet)"

section \<open>Primitives\<close>

text \<open>\<^verbatim>\<open>std::string::operator<\<close>: lexicographic on the character codes.\<close>

fun string_less :: "string \<Rightarrow> string \<Rightarrow> bool" where
  "string_less [] [] = False"
| "string_less [] (b # bs) = True"
| "string_less (a # as) [] = False"
| "string_less (a # as) (b # bs) =
     ((of_char a :: nat) < of_char b \<or> ((of_char a :: nat) = of_char b \<and> string_less as bs))"

text \<open>
  The visitors \<^verbatim>\<open>less_visitor\<close> and \<^verbatim>\<open>equal_visitor\<close> store the first operand in the
  member of its type and leave the other three members as their default construction
  leaves them: \<^verbatim>\<open>str\<close> and \<^verbatim>\<open>list\<close> empty, \<^verbatim>\<open>num\<close> and \<^verbatim>\<open>proc\<close> unset.
  \<^verbatim>\<open>apply_prim\<close> builds them from a \<^verbatim>\<open>double\<close> or from a \<^verbatim>\<open>string\<close> only, so \<^verbatim>\<open>proc\<close> is
  unset in every visitor, and \<^verbatim>\<open>num\<close> in one built from a \<^verbatim>\<open>string\<close>. The argument \<open>u\<close> is what
  the unset members of the visitor hold.

  \<^verbatim>\<open>bool operator()(const double n) const { return num < n; }\<close> of a visitor built from
  a \<^verbatim>\<open>string\<close> compares whatever \<^verbatim>\<open>num\<close> holds, and the operators on a \<^verbatim>\<open>Proc*\<close> read
  \<^verbatim>\<open>proc\<close>: the result is a boolean computed from \<open>u\<close>, and two visitors need not give the
  same one.
\<close>

datatype 'd stored = StoredNum 'd | StoredStr string

fun less_visitor :: "'d fops \<Rightarrow> 'd unset \<Rightarrow> 'd stored \<Rightarrow> 'd Data \<Rightarrow> error + bool" where
  "less_visitor ops u (StoredStr str) (DStr s) = Inr (string_less str s)"
| "less_visitor ops u (StoredNum num) (DStr s) = Inr (string_less [] s)"
| "less_visitor ops u (StoredNum num) (DNum n) = Inr (dless ops num n)"
| "less_visitor ops u (StoredStr str) (DNum n) = Inr (dless ops (unset_num u) n)"
| "less_visitor ops u st (DProc p) = through_unset_proc u"
| "less_visitor ops u st (DList l) = Inr (l \<noteq> [])"

fun equal_visitor :: "'d fops \<Rightarrow> 'd unset \<Rightarrow> 'd stored \<Rightarrow> 'd Data \<Rightarrow> error + bool" where
  "equal_visitor ops u (StoredStr str) (DStr s) = Inr (str = s)"
| "equal_visitor ops u (StoredNum num) (DStr s) = Inr ([] = s)"
| "equal_visitor ops u (StoredNum num) (DNum n) = Inr (dequal ops num n)"
| "equal_visitor ops u (StoredStr str) (DNum n) = Inr (dequal ops (unset_num u) n)"
| "equal_visitor ops u st (DProc p) = Inr (unset_proc u = p)"
| "equal_visitor ops u st (DList l) = Inr (l = [])"

text \<open>The loops of \<^verbatim>\<open>+ - * /\<close> and of \<^verbatim>\<open>cat\<close> over \<^verbatim>\<open>args.begin() + 1 .. args.end()\<close>.\<close>

fun fold_double :: "('d \<Rightarrow> 'd \<Rightarrow> 'd) \<Rightarrow> 'd \<Rightarrow> 'd Cell list \<Rightarrow> error + 'd" where
  "fold_double f res [] = Inr res"
| "fold_double f res (c # cs) =
     (case get_double c of Inl e \<Rightarrow> Inl e | Inr d \<Rightarrow> fold_double f (f res d) cs)"

fun fold_string :: "string \<Rightarrow> 'd Cell list \<Rightarrow> error + string" where
  "fold_string res [] = Inr res"
| "fold_string res (c # cs) =
     (case get_string c of Inl e \<Rightarrow> Inl e | Inr s \<Rightarrow> fold_string (res @ s) cs)"

definition arith :: "('d \<Rightarrow> 'd \<Rightarrow> 'd) \<Rightarrow> 'd Cell list \<Rightarrow> error + 'd Cell" where
  "arith f args =
     (case args of
        [] \<Rightarrow> Inl (Undefined EndDeref)
      | a # rest \<Rightarrow>
          (case get_double a of
             Inl e \<Rightarrow> Inl e
           | Inr res \<Rightarrow>
               (case fold_double f res rest of Inl e \<Rightarrow> Inl e | Inr r \<Rightarrow> Inr (Cell_double r))))"

text \<open>The stored operand of \<^verbatim>\<open><\<close>, \<^verbatim>\<open>=\<close> and \<^verbatim>\<open>>\<close>: a \<^verbatim>\<open>double\<close> when the cell's kind is
  \<^verbatim>\<open>Number\<close>, and \<^verbatim>\<open>get<string>\<close> of the cell otherwise.\<close>

definition store_operand :: "'d Cell \<Rightarrow> error + 'd stored" where
  "store_operand c =
     (if kind c = KNumber
      then (case get_double c of Inl e \<Rightarrow> Inl e | Inr n \<Rightarrow> Inr (StoredNum n))
      else (case get_string c of Inl e \<Rightarrow> Inl e | Inr s \<Rightarrow> Inr (StoredStr s)))"

definition compare ::
  "('d stored \<Rightarrow> 'd Data \<Rightarrow> error + bool) \<Rightarrow> 'd Cell \<Rightarrow> 'd Cell \<Rightarrow> error + 'd Cell" where
  "compare visitor first second =
     (case store_operand first of
        Inl e \<Rightarrow> Inl e
      | Inr st \<Rightarrow> (case visitor st (data second) of Inl e \<Rightarrow> Inl e | Inr b \<Rightarrow> Inr (Cell_bool b)))"

text \<open>
  The comparison of a stored operand \<open>first\<close> with a visited operand \<open>second\<close> reads an
  unset member of its visitor: the visitor is built, and the payload visited is a
  \<^verbatim>\<open>Proc*\<close>, or it is a \<^verbatim>\<open>double\<close> and the visitor was built from a \<^verbatim>\<open>string\<close>.
\<close>

definition reads_unset :: "'d Cell \<Rightarrow> 'd Cell \<Rightarrow> bool" where
  "reads_unset first second =
     (case store_operand first of
        Inl e \<Rightarrow> False
      | Inr st \<Rightarrow>
          (case data second of
             DProc p \<Rightarrow> True
           | DNum n \<Rightarrow> (case st of StoredStr str \<Rightarrow> True | StoredNum num \<Rightarrow> False)
           | DStr s \<Rightarrow> False
           | DList l \<Rightarrow> False))"

text \<open>
  \<^verbatim>\<open>apply_prim\<close>. \<^verbatim>\<open>args[0]\<close> and \<^verbatim>\<open>args[1]\<close> are unchecked vector subscripts, and
  \<^verbatim>\<open>get<T>(args.begin())\<close> reads through the iterator: on a vector too short they are
  undefined. In \<^verbatim>\<open>cdr\<close> the vector \<^verbatim>\<open>List{list.begin() + 1, list.end()}\<close> of an empty
  \<^verbatim>\<open>list\<close> is built from a first iterator that lies after the last. The argument \<open>u\<close> is
  what the unset members of the visitor hold that this call builds.
\<close>

definition apply_prim :: "'d fops \<Rightarrow> 'd unset \<Rightarrow> 'd Cell \<Rightarrow> 'd Cell list \<Rightarrow> error + 'd Cell" where
  "apply_prim ops u prim args =
     (let k = kind prim in
      if k = KAdd then arith (dadd ops) args
      else if k = KCat then
        (case args of
           [] \<Rightarrow> Inl (Undefined EndDeref)
         | a # rest \<Rightarrow>
             (case get_string a of
                Inl e \<Rightarrow> Inl e
              | Inr res \<Rightarrow>
                  (case fold_string res rest of Inl e \<Rightarrow> Inl e | Inr r \<Rightarrow> Inr (Cell_string r))))
      else if k = KSub then arith (dsub ops) args
      else if k = KMul then arith (dmul ops) args
      else if k = KDiv then arith (ddiv ops) args
      else if k = KLess then
        (case args of
           a # b # _ \<Rightarrow> compare (less_visitor ops u) a b
         | _ \<Rightarrow> Inl (Undefined OutOfRange))
      else if k = KEqual then
        (case args of
           a # b # _ \<Rightarrow> compare (equal_visitor ops u) a b
         | _ \<Rightarrow> Inl (Undefined OutOfRange))
      else if k = KEmpty then
        (case args of
           [] \<Rightarrow> Inl (Undefined OutOfRange)
         | a # _ \<Rightarrow>
             if kind a = KExpr
             then (case get_List a of Inl e \<Rightarrow> Inl e | Inr l \<Rightarrow> Inr (Cell_bool (length l = 0)))
             else Inr (Cell_kind KFalse))
      else if k = KGreater then
        (case args of
           a # b # _ \<Rightarrow> compare (less_visitor ops u) b a
         | _ \<Rightarrow> Inl (Undefined OutOfRange))
      else if k = KAnd then
        (case find (\<lambda>clause. kind clause = KFalse) args of
           Some clause \<Rightarrow> Inr clause
         | None \<Rightarrow> Inr (Cell_kind KTrue))
      else if k = KOr then
        (case find (\<lambda>clause. kind clause = KTrue) args of
           Some clause \<Rightarrow> Inr clause
         | None \<Rightarrow> Inr (Cell_kind KFalse))
      else if k = KNot then
        (case args of
           [] \<Rightarrow> Inl (Undefined OutOfRange)
         | a # _ \<Rightarrow> Inr (Cell_kind (if kind a = KFalse then KTrue else KFalse)))
      else if k = KList \<or> k = KCons then Inr (Cell_list args)
      else if k = KCar then
        (case args of
           [] \<Rightarrow> Inl (Undefined OutOfRange)
         | a # _ \<Rightarrow>
             if kind a \<noteq> KExpr then Inr a
             else (case get_List a of
                     Inl e \<Rightarrow> Inl e
                   | Inr [] \<Rightarrow> Inl (Undefined OutOfRange)
                   | Inr (x # _) \<Rightarrow> Inr x))
      else if k = KCdr then
        (case args of
           [] \<Rightarrow> Inl (Undefined OutOfRange)
         | a # _ \<Rightarrow>
             if kind a \<noteq> KExpr then Inr (Cell_list [])
             else (case get_List a of
                     Inl e \<Rightarrow> Inl e
                   | Inr list \<Rightarrow>
                       if length list = 1 then Inr (Cell_list [])
                       else if length list = 2 then Inr (list ! 1)
                       else if list = [] then Inl (Undefined InvalidRange)
                       else Inr (Cell_list (tl list))))
      else Inl (RuntimeError ''Mismatoh in apply_prim''))"

section \<open>Environments, procedures and the interpreter state\<close>

text \<open>
  \<^verbatim>\<open>class Env\<close>: the map \<^verbatim>\<open>env\<close> and the pointer \<^verbatim>\<open>outer\<close>. An \<^verbatim>\<open>Env*\<close> is an
  address, an index into the store \<open>envs\<close> of the state below. The store holds every
  \<^verbatim>\<open>Env\<close> object there has been: the global \<^verbatim>\<open>e0\<close> at address 0, the frames that
  \<^verbatim>\<open>bind\<close> pushes on the vector \<^verbatim>\<open>envs\<close>, and the automatic variables \<^verbatim>\<open>localenv\<close> of the
  \<^verbatim>\<open>let\<close> form. \<open>alive\<close> tells whether the lifetime of the object has not ended: an
  automatic variable dies when its block is left, by \<^verbatim>\<open>return\<close> or by an exception.
  The vectors are taken to stay within the capacity reserved for them.
\<close>

record 'd Env =
  env_map :: "(string \<times> 'd Cell) list"
  outer :: "nat option"
  alive :: bool

text \<open>\<^verbatim>\<open>struct Proc { List params; List body; Env* env; }\<close>\<close>

record 'd Proc =
  params :: "'d Cell list"
  body :: "'d Cell list"
  proc_env :: nat

text \<open>
  The globals: the store of \<^verbatim>\<open>Env\<close> objects, the vector \<^verbatim>\<open>procs\<close>, and the files that
  \<^verbatim>\<open>include\<close> has pushed on the input stack of \<^verbatim>\<open>cs\<close> (most recent first).

  The last field, \<open>assignments\<close>, is not a variable of the program. It is the history of the
  assignments \<^verbatim>\<open>(*env)[name] = value\<close> that the \<^verbatim>\<open>Define\<close> cases have made so far, oldest
  first, each with the address of the frame, the name and the value. \<open>assign\<close> below adds
  to it and no function reads it or takes anything from it, so that it has no part in
  what the program does; it is there for the statements that speak of the defines that
  an evaluation has made.
\<close>

record 'd interp =
  envs :: "'d Env list"
  procs :: "'d Proc list"
  included :: "string list"
  assignments :: "(nat \<times> string \<times> 'd Cell) list"

definition e0 :: nat where
  "e0 = 0"

definition init_interp :: "'d interp" where
  "init_interp = \<lparr>envs = [\<lparr>env_map = [], outer = None, alive = True\<rparr>], procs = [], included = [],
                   assignments = []\<rparr>"

type_synonym ('d, 'a) res = "(error + 'a) \<times> 'd interp"

text \<open>Reading through an \<^verbatim>\<open>Env*\<close>.\<close>

definition deref :: "'d interp \<Rightarrow> nat \<Rightarrow> error + 'd Env" where
  "deref s a =
     (if a < length (envs s) \<and> alive (envs s ! a) then Inr (envs s ! a)
      else Inl (Undefined Dangling))"

text \<open>
  \<^verbatim>\<open>Env::findframe\<close> follows the \<^verbatim>\<open>outer\<close> pointers. \<^verbatim>\<open>bind\<close> and \<^verbatim>\<open>let\<close> link a new
  frame to one that exists already, so a chain has fewer links than the store has frames;
  the first argument bounds the number of links followed. The result is the address of
  the frame that holds the name.
\<close>

fun findframe :: "nat \<Rightarrow> 'd interp \<Rightarrow> nat \<Rightarrow> string \<Rightarrow> error + nat" where
  "findframe 0 s a n = Inl OutOfFuel"
| "findframe (Suc k) s a n =
     (case deref s a of
        Inl e \<Rightarrow> Inl e
      | Inr fr \<Rightarrow>
          if map_of (env_map fr) n \<noteq> None then Inr a
          else (case outer fr of
                  Some out \<Rightarrow> findframe k s out n
                | None \<Rightarrow> Inl (RuntimeError ''Unbound variable'')))"

text \<open>\<^verbatim>\<open>Env::lookup\<close>: \<^verbatim>\<open>findframe(n)[n]\<close>.\<close>

definition lookup :: "'d interp \<Rightarrow> nat \<Rightarrow> string \<Rightarrow> error + 'd Cell" where
  "lookup s a n =
     (case findframe (length (envs s)) s a n of
        Inl e \<Rightarrow> Inl e
      | Inr fa \<Rightarrow>
          (case map_of (env_map (envs s ! fa)) n of
             Some c \<Rightarrow> Inr c
           | None \<Rightarrow> Inr Cell_default))"

text \<open>
  \<^verbatim>\<open>(*env)[name] = value\<close>: \<^verbatim>\<open>Env::operator[]\<close> on the frame itself, then the assignment.
  The assignment made is added to the history.
\<close>

definition assign :: "nat \<Rightarrow> string \<Rightarrow> 'd Cell \<Rightarrow> 'd interp \<Rightarrow> ('d, 'd Cell) res" where
  "assign a name v s =
     (case deref s a of
        Inl e \<Rightarrow> (Inl e, s)
      | Inr fr \<Rightarrow>
          (Inr v, s\<lparr>envs := (envs s)[a := fr\<lparr>env_map := AList.update name v (env_map fr)\<rparr>],
                    assignments := assignments s @ [(a, name, v)]\<rparr>))"

text \<open>A new \<^verbatim>\<open>Env\<close> object with the given map and outer frame; its address is returned.\<close>

definition new_env :: "(string \<times> 'd Cell) list \<Rightarrow> nat \<Rightarrow> 'd interp \<Rightarrow> nat \<times> 'd interp" where
  "new_env m out s =
     (length (envs s), s\<lparr>envs := envs s @ [\<lparr>env_map = m, outer = Some out, alive = True\<rparr>]\<rparr>)"

text \<open>The end of the lifetime of the automatic variable at address \<open>a\<close>.\<close>

definition end_lifetime :: "nat \<Rightarrow> 'd interp \<Rightarrow> 'd interp" where
  "end_lifetime a s = s\<lparr>envs := (envs s)[a := (envs s ! a)\<lparr>alive := False\<rparr>]\<rparr>"

text \<open>\<^verbatim>\<open>procs.push_back({params, body, env}); return {&procs.back()};\<close>\<close>

definition new_proc :: "'d Cell list \<Rightarrow> 'd Cell list \<Rightarrow> nat \<Rightarrow> 'd interp \<Rightarrow> 'd Cell \<times> 'd interp" where
  "new_proc ps b env s =
     (Cell_proc (length (procs s)),
      s\<lparr>procs := procs s @ [\<lparr>params = ps, body = b, proc_env = env\<rparr>]\<rparr>)"

text \<open>\<^verbatim>\<open>cs.set_input(new ifstream{path})\<close>\<close>

definition set_input :: "string \<Rightarrow> 'd interp \<Rightarrow> 'd interp" where
  "set_input path s = s\<lparr>included := path # included s\<rparr>"

text \<open>
  \<^verbatim>\<open>Parser::bind\<close>: the loop that fills \<^verbatim>\<open>newenv\<close>, then the frame is pushed on \<^verbatim>\<open>envs\<close>.
\<close>

fun bind_loop ::
  "'d Cell list \<Rightarrow> 'd Cell list \<Rightarrow> (string \<times> 'd Cell) list \<Rightarrow> error + (string \<times> 'd Cell) list" where
  "bind_loop (p # ps) (q # qs) newenv =
     (case get_string p of
        Inl e \<Rightarrow> Inl e
      | Inr name \<Rightarrow> bind_loop ps qs (AList.update name q newenv))"
| "bind_loop ps qs newenv = Inr newenv"

definition bind :: "'d Cell list \<Rightarrow> 'd Cell list \<Rightarrow> nat \<Rightarrow> 'd interp \<Rightarrow> ('d, nat) res" where
  "bind ps args env s =
     (if length ps \<noteq> length args
      then (Inl (RuntimeError ''# of args provided and expected mismatch''), s)
      else (case bind_loop ps args [] of
              Inl e \<Rightarrow> (Inl e, s)
            | Inr newenv \<Rightarrow> (case new_env newenv env s of (a, s') \<Rightarrow> (Inr a, s'))))"

section \<open>The evaluator\<close>

text \<open>
  The cases of \<^verbatim>\<open>eval\<close> and \<^verbatim>\<open>evlist\<close> that \<^verbatim>\<open>apply_prim\<close> serves.
\<close>

definition is_prim :: "Kind \<Rightarrow> bool" where
  "is_prim k \<longleftrightarrow> k \<in> {KAdd, KSub, KMul, KDiv, KLess, KGreater, KEqual, KCat, KCons, KCar,
                        KCdr, KList, KAnd, KOr, KNot, KEmpty}"

text \<open>
  \<^verbatim>\<open>if (res.size() == 1) return {res[0]}; return {res};\<close> of the \<^verbatim>\<open>Expr\<close> case.
\<close>

definition unwrap :: "'d Cell list \<Rightarrow> 'd Cell" where
  "unwrap res = (if length res = 1 then res ! 0 else Cell_list res)"

text \<open>
  The \<^verbatim>\<open>Lambda\<close> case, the same in \<^verbatim>\<open>eval\<close> and in \<^verbatim>\<open>evlist\<close>; \<open>rest\<close> is what follows
  the \<^verbatim>\<open>lambda\<close> cell, so \<^verbatim>\<open>p + 2 >= expr.end()\<close> says that \<open>rest\<close> has fewer than two cells.
\<close>

definition eval_lambda :: "'d Cell list \<Rightarrow> nat \<Rightarrow> 'd interp \<Rightarrow> ('d, 'd Cell) res" where
  "eval_lambda rest env s =
     (if length rest < 2 then (Inl (RuntimeError ''Malformed lambda expression''), s)
      else (case get_List (rest ! 0) of
              Inl e \<Rightarrow> (Inl e, s)
            | Inr ps \<Rightarrow>
                (case get_List (rest ! 1) of
                   Inl e \<Rightarrow> (Inl e, s)
                 | Inr b \<Rightarrow> (case new_proc ps b env s of (c, s') \<Rightarrow> (Inr c, s')))))"

text \<open>
  The loop of the \<^verbatim>\<open>Name\<close> case that evaluates arguments in place: numbers, quoted
  cells and names, up to the first cell of another kind. It returns the arguments
  collected and the cells left for \<^verbatim>\<open>evlist\<close>. A \<^verbatim>\<open>Quote\<close> in last position makes
  \<^verbatim>\<open>*++p\<close> read through \<^verbatim>\<open>expr.end()\<close>.
\<close>

fun collect_args ::
  "'d interp \<Rightarrow> nat \<Rightarrow> 'd Cell list \<Rightarrow> 'd Cell list \<Rightarrow> error + ('d Cell list \<times> 'd Cell list)" where
  "collect_args s env [] args = Inr (args, [])"
| "collect_args s env (c # cs) args =
     (if kind c = KNumber then collect_args s env cs (args @ [c])
      else if kind c = KQuote then
        (case cs of
           [] \<Rightarrow> Inl (Undefined EndDeref)
         | q # cs' \<Rightarrow> collect_args s env cs' (args @ [q]))
      else if kind c = KName then
        (case get_string c of
           Inl e \<Rightarrow> Inl e
         | Inr n \<Rightarrow>
             (case lookup s env n of
                Inl e \<Rightarrow> Inl e
              | Inr x \<Rightarrow> collect_args s env cs (args @ [x])))
      else Inr (args, c # cs))"

text \<open>
  \<^verbatim>\<open>eval\<close>, \<^verbatim>\<open>evlist\<close> and \<^verbatim>\<open>apply\<close> (here \<open>apply_proc\<close>: \<open>apply\<close> is a keyword of
  Isabelle). The first argument after the arithmetic is the step count: every call takes
  one step, and a call with no step left returns \<open>OutOfFuel\<close>.
  Each function returns the state with its result, also when the result is an error:
  an exception does not undo what was done before it.

  The loop \<^verbatim>\<open>for (p = expr.begin(); ...)\<close> of \<^verbatim>\<open>eval\<close> never reaches a second round, as
  every case of its \<^verbatim>\<open>switch\<close> returns or throws; \<^verbatim>\<open>eval\<close> is a dispatch on the first
  cell. The loop of \<^verbatim>\<open>evlist\<close> is \<open>evlist_loop\<close>: its arguments are the cells from \<^verbatim>\<open>p\<close>
  on and the vector \<^verbatim>\<open>res\<close>. The cases \<^verbatim>\<open>Define\<close>, \<^verbatim>\<open>Let\<close> and the call of a procedure
  are written twice in the source, with the same text up to what is done with the value
  (\<^verbatim>\<open>eval\<close> returns it, \<^verbatim>\<open>evlist\<close> pushes it on \<^verbatim>\<open>res\<close> and returns \<^verbatim>\<open>res\<close>); here they
  are \<open>eval_define\<close>, \<open>eval_let\<close> and \<open>eval_call\<close>. The \<^verbatim>\<open>while\<close> loops of \<^verbatim>\<open>Let\<close> and of
  \<^verbatim>\<open>Cond\<close> are \<open>let_loop\<close>, \<open>eval_cond\<close> and \<open>evlist_cond\<close>.

  In \<^verbatim>\<open>(*env)[name] = eval(...)\<close> the right operand is evaluated first (C++17).
  The text written on \<^verbatim>\<open>cout\<close> is not modelled; the \<^verbatim>\<open>get<double>(p)\<close> that the trace
  of the \<^verbatim>\<open>Number\<close> case of \<^verbatim>\<open>eval\<close> makes is.
\<close>

text \<open>
  The functions call one another. Each body below is written over the record \<open>fs\<close> of
  the nine functions with one step less: \<open>c_eval fs\<close> is the call \<^verbatim>\<open>eval(...)\<close>, and so on.
\<close>

record 'd calls =
  c_eval :: "'d Cell list \<Rightarrow> nat \<Rightarrow> 'd interp \<Rightarrow> ('d, 'd Cell) res"
  c_evlist_loop :: "'d Cell list \<Rightarrow> 'd Cell list \<Rightarrow> nat \<Rightarrow> 'd interp \<Rightarrow> ('d, 'd Cell list) res"
  c_eval_define :: "'d Cell list \<Rightarrow> nat \<Rightarrow> 'd interp \<Rightarrow> ('d, 'd Cell) res"
  c_eval_let :: "'d Cell list \<Rightarrow> nat \<Rightarrow> 'd interp \<Rightarrow> ('d, 'd Cell) res"
  c_let_loop :: "'d Cell list \<Rightarrow> (string \<times> 'd Cell) list \<Rightarrow> nat \<Rightarrow> 'd interp \<Rightarrow> ('d, (string \<times> 'd Cell) list) res"
  c_eval_cond :: "'d Cell list \<Rightarrow> nat \<Rightarrow> 'd interp \<Rightarrow> ('d, 'd Cell) res"
  c_evlist_cond :: "'d Cell list \<Rightarrow> 'd Cell list \<Rightarrow> nat \<Rightarrow> 'd interp \<Rightarrow> ('d, 'd Cell list) res"
  c_eval_call :: "'d Cell \<Rightarrow> 'd Cell list \<Rightarrow> nat \<Rightarrow> 'd interp \<Rightarrow> ('d, 'd Cell) res"
  c_apply_proc :: "'d Cell \<Rightarrow> 'd Cell list \<Rightarrow> 'd interp \<Rightarrow> ('d, 'd Cell) res"

definition eval_body :: "'d fops \<Rightarrow> 'd calls \<Rightarrow> 'd Cell list \<Rightarrow> nat \<Rightarrow> 'd interp \<Rightarrow> ('d, 'd Cell) res" where
  "eval_body ops fs expr env s =
     (case expr of
        [] \<Rightarrow> (Inr Cell_default, s)
      | c # rest \<Rightarrow>
          if kind c = KInclude then
            (case rest of
               [] \<Rightarrow> (Inl (Undefined EndDeref), s)
             | f # _ \<Rightarrow>
                 (case get_string f of
                    Inl e \<Rightarrow> (Inl e, s)
                  | Inr path \<Rightarrow> (Inr (Cell_kind KInclude), set_input path s)))
          else if kind c = KNumber then
            (case get_double c of Inl e \<Rightarrow> (Inl e, s) | Inr _ \<Rightarrow> (Inr c, s))
          else if kind c = KQuote then
            (case rest of
               [] \<Rightarrow> (Inl (RuntimeError ''Quote expects 1 arg''), s)
             | q # _ \<Rightarrow> (Inr q, s))
          else if kind c = KBegin then
            (if rest = [] then (Inl (Undefined InvalidRange), s)
             else (case c_evlist_loop fs (butlast rest) [] env s of
                     (Inl e, s') \<Rightarrow> (Inl e, s')
                   | (Inr _, s') \<Rightarrow> c_eval fs [last rest] env s'))
          else if kind c = KLambda then eval_lambda rest env s
          else if kind c = KDefine then c_eval_define fs rest env s
          else if kind c = KExpr then
            (case get_List c of
               Inl e \<Rightarrow> (Inl e, s)
             | Inr l \<Rightarrow>
                 (case c_evlist_loop fs l [] env s of
                    (Inl e, s') \<Rightarrow> (Inl e, s')
                  | (Inr res, s') \<Rightarrow> (Inr (unwrap res), s')))
          else if kind c = KLet then c_eval_let fs rest env s
          else if kind c = KCond then c_eval_cond fs rest env s
          else if is_prim (kind c) then
            (if rest = [] then (Inl (RuntimeError ''Primitives take at least one argument''), s)
             else (case c_evlist_loop fs rest [] env s of
                     (Inl e, s') \<Rightarrow> (Inl e, s')
                   | (Inr args, s') \<Rightarrow>
                       (case apply_prim ops (dunset ops args) c args of
                          Inl e \<Rightarrow> (Inl e, s')
                        | Inr v \<Rightarrow> (Inr v, s'))))
          else if kind c = KName then
            (case get_string c of
               Inl e \<Rightarrow> (Inl e, s)
             | Inr name \<Rightarrow>
                 (case lookup s env name of
                    Inl e \<Rightarrow> (Inl e, s)
                  | Inr x \<Rightarrow>
                      if kind x \<noteq> KProc then (Inr x, s)
                      else c_eval_call fs x rest env s))
          else (Inl (RuntimeError ''Unmatched cell in eval''), s))"

definition evlist_loop_body :: "'d fops \<Rightarrow> 'd calls \<Rightarrow> 'd Cell list \<Rightarrow> 'd Cell list \<Rightarrow> nat \<Rightarrow> 'd interp \<Rightarrow> ('d, 'd Cell list) res" where
  "evlist_loop_body ops fs expr res env s =
     (case expr of
        [] \<Rightarrow> (Inr res, s)
      | c # rest \<Rightarrow>
          if kind c = KInclude then
            (case rest of
               [] \<Rightarrow> (Inl (Undefined EndDeref), s)
             | f # _ \<Rightarrow>
                 (case get_string f of
                    Inl e \<Rightarrow> (Inl e, s)
                  | Inr path \<Rightarrow> (Inr [], set_input path s)))
          else if kind c = KNumber then c_evlist_loop fs rest (res @ [c]) env s
          else if kind c = KQuote then
            (case rest of
               [] \<Rightarrow> (Inl (RuntimeError ''Quote expects 1 arg''), s)
             | q # rest' \<Rightarrow> c_evlist_loop fs rest' (res @ [q]) env s)
          else if kind c = KBegin then
            (if rest = [] then (Inl (Undefined InvalidRange), s)
             else (case c_evlist_loop fs (butlast rest) [] env s of
                     (Inl e, s') \<Rightarrow> (Inl e, s')
                   | (Inr _, s') \<Rightarrow>
                       (case c_eval fs [last rest] env s' of
                          (Inl e, s'') \<Rightarrow> (Inl e, s'')
                        | (Inr v, s'') \<Rightarrow> (Inr (res @ [v]), s''))))
          else if kind c = KLambda then
            (case eval_lambda rest env s of
               (Inl e, s') \<Rightarrow> (Inl e, s')
             | (Inr v, s') \<Rightarrow> c_evlist_loop fs (drop 2 rest) (res @ [v]) env s')
          else if kind c = KDefine then
            (case c_eval_define fs rest env s of
               (Inl e, s') \<Rightarrow> (Inl e, s')
             | (Inr v, s') \<Rightarrow> (Inr (res @ [v]), s'))
          else if kind c = KExpr then
            (case get_List c of
               Inl e \<Rightarrow> (Inl e, s)
             | Inr l \<Rightarrow>
                 (case c_evlist_loop fs l [] env s of
                    (Inl e, s') \<Rightarrow> (Inl e, s')
                  | (Inr r, s') \<Rightarrow> c_evlist_loop fs rest (res @ [unwrap r]) env s'))
          else if kind c = KLet then
            (case c_eval_let fs rest env s of
               (Inl e, s') \<Rightarrow> (Inl e, s')
             | (Inr v, s') \<Rightarrow> (Inr (res @ [v]), s'))
          else if kind c = KCond then c_evlist_cond fs rest res env s
          else if is_prim (kind c) then
            (if rest = [] then (Inl (RuntimeError ''Primitives take at least one argument''), s)
             else (case c_evlist_loop fs rest [] env s of
                     (Inl e, s') \<Rightarrow> (Inl e, s')
                   | (Inr args, s') \<Rightarrow>
                       (case apply_prim ops (dunset ops args) c args of
                          Inl e \<Rightarrow> (Inl e, s')
                        | Inr v \<Rightarrow> (Inr (res @ [v]), s'))))
          else if kind c = KName then
            (case get_string c of
               Inl e \<Rightarrow> (Inl e, s)
             | Inr name \<Rightarrow>
                 (case lookup s env name of
                    Inl e \<Rightarrow> (Inl e, s)
                  | Inr x \<Rightarrow>
                      if kind x \<noteq> KProc then c_evlist_loop fs rest (res @ [x]) env s
                      else (case c_eval_call fs x rest env s of
                              (Inl e, s') \<Rightarrow> (Inl e, s')
                            | (Inr v, s') \<Rightarrow> (Inr (res @ [v]), s'))))
          else (Inl (RuntimeError ''Unmatched in evlist''), s))"

definition eval_define_body :: "'d fops \<Rightarrow> 'd calls \<Rightarrow> 'd Cell list \<Rightarrow> nat \<Rightarrow> 'd interp \<Rightarrow> ('d, 'd Cell) res" where
  "eval_define_body ops fs rest env s =
     (if length rest < 2 then (Inl (RuntimeError ''Malformed define expression''), s)
      else
        let np = rest ! 0 in
        if kind np = KName then
          (case c_eval fs (tl rest) env s of
             (Inl e, s') \<Rightarrow> (Inl e, s')
           | (Inr v, s') \<Rightarrow>
               (case get_string np of
                  Inl e \<Rightarrow> (Inl e, s')
                | Inr name \<Rightarrow> assign env name v s'))
        else if kind np = KExpr then
          (case get_List np of
             Inl e \<Rightarrow> (Inl e, s)
           | Inr declaration \<Rightarrow>
               (case declaration of
                  [] \<Rightarrow> (Inl (Undefined EndDeref), s)
                | d # ps \<Rightarrow>
                    (case get_string d of
                       Inl e \<Rightarrow> (Inl e, s)
                     | Inr name \<Rightarrow>
                         (case get_List (rest ! 1) of
                            Inl e \<Rightarrow> (Inl e, s)
                          | Inr b \<Rightarrow>
                              (case new_proc ps b env s of
                                 (c, s') \<Rightarrow> assign env name c s')))))
        else (Inl (RuntimeError ''Unfamiliar form to define''), s))"

definition eval_let_body :: "'d fops \<Rightarrow> 'd calls \<Rightarrow> 'd Cell list \<Rightarrow> nat \<Rightarrow> 'd interp \<Rightarrow> ('d, 'd Cell) res" where
  "eval_let_body ops fs rest env s =
     (if length rest < 2
      then (Inl (RuntimeError ''Let expects a list of definitions and a body''), s)
      else
        (case get_List (rest ! 0) of
           Inl e \<Rightarrow> (Inl e, s)
         | Inr localvars \<Rightarrow>
             (case c_let_loop fs localvars [] env s of
                (Inl e, s') \<Rightarrow> (Inl e, s')
              | (Inr m, s') \<Rightarrow>
                  (case new_env m env s' of
                     (localenv, s1) \<Rightarrow>
                       if kind (rest ! 1) = KExpr then
                         (case get_List (rest ! 1) of
                            Inl e \<Rightarrow> (Inl e, end_lifetime localenv s1)
                          | Inr b \<Rightarrow>
                              (case c_eval fs b localenv s1 of
                                 (r, s2) \<Rightarrow> (r, end_lifetime localenv s2)))
                       else
                         (case c_eval fs [rest ! 1] localenv s1 of
                            (r, s2) \<Rightarrow> (r, end_lifetime localenv s2))))))"

definition let_loop_body :: "'d fops \<Rightarrow> 'd calls \<Rightarrow> 'd Cell list \<Rightarrow> (string \<times> 'd Cell) list \<Rightarrow> nat \<Rightarrow> 'd interp \<Rightarrow> ('d, (string \<times> 'd Cell) list) res" where
  "let_loop_body ops fs pairs m env s =
     (case pairs of
        [] \<Rightarrow> (Inr m, s)
      | pair # pairs' \<Rightarrow>
          (case get_List pair of
             Inl e \<Rightarrow> (Inl e, s)
           | Inr [] \<Rightarrow> (Inl (Undefined OutOfRange), s)
           | Inr (nc # vs) \<Rightarrow>
               (case get_string nc of
                  Inl e \<Rightarrow> (Inl e, s)
                | Inr name \<Rightarrow>
                    (case vs of
                       [] \<Rightarrow> (Inl (Undefined OutOfRange), s)
                     | vc # _ \<Rightarrow>
                         (case c_eval fs [vc] env s of
                            (Inl e, s') \<Rightarrow> (Inl e, s')
                          | (Inr val, s') \<Rightarrow>
                              c_let_loop fs pairs' (AList.update name val m) env s')))))"

definition eval_cond_body :: "'d fops \<Rightarrow> 'd calls \<Rightarrow> 'd Cell list \<Rightarrow> nat \<Rightarrow> 'd interp \<Rightarrow> ('d, 'd Cell) res" where
  "eval_cond_body ops fs clauses env s =
     (case clauses of
        [] \<Rightarrow> (Inl (Undefined EndDeref), s)
      | cl # clauses' \<Rightarrow>
          (case get_List cl of
             Inl e \<Rightarrow> (Inl e, s)
           | Inr [] \<Rightarrow> (Inl (Undefined OutOfRange), s)
           | Inr (c0 # cs) \<Rightarrow>
               if kind c0 = KElse then
                 (if clauses' = [] then
                    (case cs of
                       [] \<Rightarrow> (Inl (Undefined OutOfRange), s)
                     | c1 # _ \<Rightarrow> c_eval fs [c1] env s)
                  else (Inl (RuntimeError ''Else clause not at end of condition''), s))
               else
                 (case c_eval fs [c0] env s of
                    (Inl e, s') \<Rightarrow> (Inl e, s')
                  | (Inr t, s') \<Rightarrow>
                      if truthy t then
                        (case cs of
                           [] \<Rightarrow> (Inl (Undefined OutOfRange), s')
                         | c1 # _ \<Rightarrow> c_eval fs [c1] env s')
                      else c_eval_cond fs clauses' env s')))"

definition evlist_cond_body :: "'d fops \<Rightarrow> 'd calls \<Rightarrow> 'd Cell list \<Rightarrow> 'd Cell list \<Rightarrow> nat \<Rightarrow> 'd interp \<Rightarrow> ('d, 'd Cell list) res" where
  "evlist_cond_body ops fs clauses res env s =
     (case clauses of
        [] \<Rightarrow> (Inl (Undefined PastEnd), s)
      | cl # clauses' \<Rightarrow>
          (case get_List cl of
             Inl e \<Rightarrow> (Inl e, s)
           | Inr [] \<Rightarrow> (Inl (Undefined OutOfRange), s)
           | Inr (c0 # cs) \<Rightarrow>
               if kind c0 = KElse then
                 (if clauses' = [] then
                    (case cs of
                       [] \<Rightarrow> (Inl (Undefined OutOfRange), s)
                     | c1 # _ \<Rightarrow>
                         (case c_eval fs [c1] env s of
                            (Inl e, s') \<Rightarrow> (Inl e, s')
                          | (Inr v, s') \<Rightarrow> (Inr (res @ [v]), s')))
                  else (Inl (RuntimeError ''Else clause not at end of condition''), s))
               else
                 (case c_eval fs [c0] env s of
                    (Inl e, s') \<Rightarrow> (Inl e, s')
                  | (Inr t, s') \<Rightarrow>
                      if truthy t then
                        (case cs of
                           [] \<Rightarrow> (Inl (Undefined OutOfRange), s')
                         | c1 # _ \<Rightarrow>
                             (case c_eval fs [c1] env s' of
                                (Inl e, s'') \<Rightarrow> (Inl e, s'')
                              | (Inr v, s'') \<Rightarrow> c_evlist_loop fs clauses' (res @ [v]) env s''))
                      else c_evlist_cond fs clauses' res env s')))"

definition eval_call_body :: "'d fops \<Rightarrow> 'd calls \<Rightarrow> 'd Cell \<Rightarrow> 'd Cell list \<Rightarrow> nat \<Rightarrow> 'd interp \<Rightarrow> ('d, 'd Cell) res" where
  "eval_call_body ops fs x rest env s =
     (case collect_args s env rest [] of
        Inl e \<Rightarrow> (Inl e, s)
      | Inr (args, left) \<Rightarrow>
          if left = [] then c_apply_proc fs x args s
          else (case c_evlist_loop fs left [] env s of
                  (Inl e, s') \<Rightarrow> (Inl e, s')
                | (Inr addargs, s') \<Rightarrow> c_apply_proc fs x (args @ addargs) s'))"

definition apply_proc_body :: "'d fops \<Rightarrow> 'd calls \<Rightarrow> 'd Cell \<Rightarrow> 'd Cell list \<Rightarrow> 'd interp \<Rightarrow> ('d, 'd Cell) res" where
  "apply_proc_body ops fs c args s =
     (case get_Proc c of
        Inl e \<Rightarrow> (Inl e, s)
      | Inr p \<Rightarrow>
          if p < length (procs s) then
            (case bind (params (procs s ! p)) args (proc_env (procs s ! p)) s of
               (Inl e, s') \<Rightarrow> (Inl e, s')
             | (Inr newenv, s') \<Rightarrow> c_eval fs (body (procs s ! p)) newenv s')
          else (Inl (Undefined Dangling), s))"

text \<open>
  The nine functions, tied together by recursion on the step count: \<open>evaluator ops n\<close>
  holds the nine functions with \<open>n\<close> steps left. With no step left a call returns
  \<open>OutOfFuel\<close>; with \<open>Suc n\<close> steps it runs its body over the functions with \<open>n\<close> steps.
\<close>

primrec evaluator :: "'d fops \<Rightarrow> nat \<Rightarrow> 'd calls" where
  "evaluator ops 0 =
     \<lparr>c_eval = (\<lambda>expr env s. (Inl OutOfFuel, s)),
        c_evlist_loop = (\<lambda>expr res env s. (Inl OutOfFuel, s)),
        c_eval_define = (\<lambda>rest env s. (Inl OutOfFuel, s)),
        c_eval_let = (\<lambda>rest env s. (Inl OutOfFuel, s)),
        c_let_loop = (\<lambda>pairs m env s. (Inl OutOfFuel, s)),
        c_eval_cond = (\<lambda>clauses env s. (Inl OutOfFuel, s)),
        c_evlist_cond = (\<lambda>clauses res env s. (Inl OutOfFuel, s)),
        c_eval_call = (\<lambda>x rest env s. (Inl OutOfFuel, s)),
        c_apply_proc = (\<lambda>c args s. (Inl OutOfFuel, s))\<rparr>"
| "evaluator ops (Suc n) =
     (let fs = evaluator ops n in
      \<lparr>c_eval = eval_body ops fs,
        c_evlist_loop = evlist_loop_body ops fs,
        c_eval_define = eval_define_body ops fs,
        c_eval_let = eval_let_body ops fs,
        c_let_loop = let_loop_body ops fs,
        c_eval_cond = eval_cond_body ops fs,
        c_evlist_cond = evlist_cond_body ops fs,
        c_eval_call = eval_call_body ops fs,
        c_apply_proc = apply_proc_body ops fs\<rparr>)"

definition eval :: "'d fops \<Rightarrow> nat \<Rightarrow> 'd Cell list \<Rightarrow> nat \<Rightarrow> 'd interp \<Rightarrow> ('d, 'd Cell) res" where
  "eval ops n = c_eval (evaluator ops n)"

definition evlist_loop :: "'d fops \<Rightarrow> nat \<Rightarrow> 'd Cell list \<Rightarrow> 'd Cell list \<Rightarrow> nat \<Rightarrow> 'd interp \<Rightarrow> ('d, 'd Cell list) res" where
  "evlist_loop ops n = c_evlist_loop (evaluator ops n)"

definition eval_define :: "'d fops \<Rightarrow> nat \<Rightarrow> 'd Cell list \<Rightarrow> nat \<Rightarrow> 'd interp \<Rightarrow> ('d, 'd Cell) res" where
  "eval_define ops n = c_eval_define (evaluator ops n)"

definition eval_let :: "'d fops \<Rightarrow> nat \<Rightarrow> 'd Cell list \<Rightarrow> nat \<Rightarrow> 'd interp \<Rightarrow> ('d, 'd Cell) res" where
  "eval_let ops n = c_eval_let (evaluator ops n)"

definition let_loop :: "'d fops \<Rightarrow> nat \<Rightarrow> 'd Cell list \<Rightarrow> (string \<times> 'd Cell) list \<Rightarrow> nat \<Rightarrow> 'd interp \<Rightarrow> ('d, (string \<times> 'd Cell) list) res" where
  "let_loop ops n = c_let_loop (evaluator ops n)"

definition eval_cond :: "'d fops \<Rightarrow> nat \<Rightarrow> 'd Cell list \<Rightarrow> nat \<Rightarrow> 'd interp \<Rightarrow> ('d, 'd Cell) res" where
  "eval_cond ops n = c_eval_cond (evaluator ops n)"

definition evlist_cond :: "'d fops \<Rightarrow> nat \<Rightarrow> 'd Cell list \<Rightarrow> 'd Cell list \<Rightarrow> nat \<Rightarrow> 'd interp \<Rightarrow> ('d, 'd Cell list) res" where
  "evlist_cond ops n = c_evlist_cond (evaluator ops n)"

definition eval_call :: "'d fops \<Rightarrow> nat \<Rightarrow> 'd Cell \<Rightarrow> 'd Cell list \<Rightarrow> nat \<Rightarrow> 'd interp \<Rightarrow> ('d, 'd Cell) res" where
  "eval_call ops n = c_eval_call (evaluator ops n)"

definition apply_proc :: "'d fops \<Rightarrow> nat \<Rightarrow> 'd Cell \<Rightarrow> 'd Cell list \<Rightarrow> 'd interp \<Rightarrow> ('d, 'd Cell) res" where
  "apply_proc ops n = c_apply_proc (evaluator ops n)"

text \<open>\<^verbatim>\<open>evlist\<close> starts its loop with an empty \<^verbatim>\<open>res\<close>.\<close>

definition evlist :: "'d fops \<Rightarrow> nat \<Rightarrow> 'd Cell list \<Rightarrow> nat \<Rightarrow> 'd interp \<Rightarrow> ('d, 'd Cell list) res" where
  "evlist ops n expr env s = evlist_loop ops n expr [] env s"

section \<open>Lexer and parser\<close>

text \<open>The table \<^verbatim>\<open>keywords\<close>, entry by entry (\<open>keywords\<close> is a keyword of Isabelle).\<close>

definition keywords_map :: "(string \<times> Kind) list" where
  "keywords_map =
     [(''define'', KDefine), (''lambda'', KLambda), (''cond'', KCond),
      (''cons'', KCons), (''car'', KCar), (''cdr'', KCdr), (''list'', KList), (''else'', KElse),
      (''empty?'', KEmpty), (''and'', KAnd), (''or'', KOr), (''not'', KOr), (''cat'', KCat),
      (''include'', KInclude), (''begin'', KBegin), (''let'', KLet)]"

text \<open>
  \<^verbatim>\<open>static_cast<Kind>(c)\<close> for the characters that are tokens by themselves: the kind
  whose enumerator has that character as its value.
\<close>

definition single_char_kind :: "char \<Rightarrow> Kind option" where
  "single_char_kind c =
     map_of [(CHR ''!'', KNot), (CHR ''&'', KAnd), (CHR 0x27, KQuote), (CHR ''('', KLp),
             (CHR '')'', KRp), (CHR ''*'', KMul), (CHR ''+'', KAdd), (CHR ''-'', KSub),
             (CHR '';'', KComment), (CHR ''/'', KDiv), (CHR ''<'', KLess), (CHR ''='', KEqual),
             (CHR ''>'', KGreater), (CHR ''|'', KOr)] c"

definition isspace :: "char \<Rightarrow> bool" where
  "isspace c \<longleftrightarrow> c \<in> {CHR '' '', CHR 0x09, CHR 0x0A, CHR 0x0B, CHR 0x0C, CHR 0x0D}"

text \<open>
  \<^verbatim>\<open>class Cell_stream\<close>, for one input stream: the characters not read yet and the
  current token \<^verbatim>\<open>ct\<close>.
\<close>

record 'd Cell_stream =
  ip :: string
  ct :: "'d Cell"

text \<open>
  The letters that may start a keyword, and the reading of a word: \<^verbatim>\<open>*ip >> temp\<close> takes
  the characters up to the next white space, and each \<^verbatim>\<open>)\<close> at the end of \<^verbatim>\<open>temp\<close> is
  put back.
\<close>

definition keyword_start :: "char \<Rightarrow> bool" where
  "keyword_start c \<longleftrightarrow> c \<in> set ''acdeilno''"

definition strip_rp :: "string \<Rightarrow> string" where
  "strip_rp temp = rev (dropWhile (\<lambda>c. c = CHR '')'') (rev temp))"

definition read_word :: "string \<Rightarrow> string \<times> string" where
  "read_word inp =
     (let temp = takeWhile (\<lambda>c. \<not> isspace c) inp;
          left = dropWhile (\<lambda>c. \<not> isspace c) inp
      in (strip_rp temp, replicate (length temp - length (strip_rp temp)) (CHR '')'') @ left))"

text \<open>\<^verbatim>\<open>Cell_stream::get\<close>. A keyword changes the kind of \<^verbatim>\<open>ct\<close> and leaves its data.\<close>

definition get :: "'d fops \<Rightarrow> 'd Cell_stream \<Rightarrow> 'd Cell_stream" where
  "get ops cs =
     (case dropWhile isspace (ip cs) of
        [] \<Rightarrow> cs\<lparr>ip := [], ct := Cell_kind KEnd\<rparr>
      | c # left \<Rightarrow>
          (case single_char_kind c of
             Some k \<Rightarrow> cs\<lparr>ip := left, ct := Cell_kind k\<rparr>
           | None \<Rightarrow>
               if isdigit c then
                 (case dread ops (c # left) of
                    (temp, left') \<Rightarrow> cs\<lparr>ip := left', ct := Cell_double temp\<rparr>)
               else
                 (case read_word (c # left) of
                    (temp, left') \<Rightarrow>
                      if keyword_start c then
                        (case map_of keywords_map temp of
                           Some k \<Rightarrow> cs\<lparr>ip := left', ct := Cell k (data (ct cs))\<rparr>
                         | None \<Rightarrow> cs\<lparr>ip := left', ct := Cell KName (DStr temp)\<rparr>)
                      else cs\<lparr>ip := left', ct := Cell KName (DStr temp)\<rparr>)))"

text \<open>\<^verbatim>\<open>ignoreln\<close>: \<^verbatim>\<open>ip->ignore(9001, '\n')\<close>.\<close>

fun ignore :: "nat \<Rightarrow> char \<Rightarrow> string \<Rightarrow> string" where
  "ignore 0 delim inp = inp"
| "ignore (Suc n) delim [] = []"
| "ignore (Suc n) delim (c # cs) = (if c = delim then cs else ignore n delim cs)"

definition ignoreln :: "'d Cell_stream \<Rightarrow> 'd Cell_stream" where
  "ignoreln cs = cs\<lparr>ip := ignore 9001 (CHR 0x0A) (ip cs)\<rparr>"

text \<open>
  The parser \<^verbatim>\<open>expr(getfirst)\<close>. \<open>eat_first\<close> is its first loop, which reads tokens up
  to the first one that is not a comment, and \<open>expr_loop\<close> its second, with the vector
  \<^verbatim>\<open>res\<close>. The first argument bounds the number of tokens read.
\<close>

fun eat_first :: "'d fops \<Rightarrow> nat \<Rightarrow> 'd Cell_stream \<Rightarrow> error + 'd Cell_stream" where
  "eat_first ops 0 cs = Inl OutOfFuel"
| "eat_first ops (Suc n) cs =
     (let cs1 = get ops cs in
      if kind (ct cs1) = KComment then eat_first ops n (ignoreln cs1) else Inr cs1)"

fun expr_loop ::
  "'d fops \<Rightarrow> nat \<Rightarrow> 'd Cell list \<Rightarrow> 'd Cell_stream \<Rightarrow> (error + 'd Cell list) \<times> 'd Cell_stream" where
  "expr_loop ops 0 res cs = (Inl OutOfFuel, cs)"
| "expr_loop ops (Suc n) res cs =
     (let cs1 = get ops cs in
      if kind (ct cs1) = KLp then
        (case expr_loop ops n [] cs1 of
           (Inl e, cs2) \<Rightarrow> (Inl e, cs2)
         | (Inr l, cs2) \<Rightarrow>
             if kind (ct cs2) \<noteq> KRp then (Inl (RuntimeError (CHR 0x27 # '')'' @ CHR 0x27 # '' expected'')), cs2)
             else expr_loop ops n (res @ [Cell_list l]) cs2)
      else if kind (ct cs1) = KEnd \<or> kind (ct cs1) = KRp then (Inr res, cs1)
      else if kind (ct cs1) = KComment then expr_loop ops n res (ignoreln cs1)
      else expr_loop ops n (res @ [ct cs1]) cs1)"

definition expr ::
  "'d fops \<Rightarrow> nat \<Rightarrow> bool \<Rightarrow> 'd Cell_stream \<Rightarrow> (error + 'd Cell list) \<times> 'd Cell_stream" where
  "expr ops n getfirst cs =
     (if getfirst then
        (case eat_first ops n cs of
           Inl e \<Rightarrow> (Inl e, cs)
         | Inr cs1 \<Rightarrow> expr_loop ops n [] cs1)
      else expr_loop ops n [] cs)"

text \<open>
  One round of the loop of \<^verbatim>\<open>start\<close>, \<^verbatim>\<open>eval(expr(true), &e0)\<close>, on a stream that holds
  the given text and has the initial token of a \<^verbatim>\<open>Cell_stream\<close>.
\<close>

definition eval_text :: "'d fops \<Rightarrow> nat \<Rightarrow> string \<Rightarrow> 'd interp \<Rightarrow> ('d, 'd Cell) res" where
  "eval_text ops n text s =
     (case expr ops n True \<lparr>ip = text, ct = Cell_kind KEnd\<rparr> of
        (Inl e, _) \<Rightarrow> (Inl e, s)
      | (Inr l, _) \<Rightarrow> eval ops n l e0 s)"

text \<open>
  Successive inputs, each evaluated as \<open>eval_text\<close> does on the state that the one before
  has left. An exception ends the evaluation of its own input only: \<^verbatim>\<open>start\<close> catches it
  and goes on with the next.
\<close>

fun eval_texts ::
  "'d fops \<Rightarrow> nat \<Rightarrow> string list \<Rightarrow> 'd interp \<Rightarrow> (error + 'd Cell) list \<times> 'd interp" where
  "eval_texts ops n [] s = ([], s)"
| "eval_texts ops n (t # ts) s =
     (case eval_text ops n t s of
        (r, s') \<Rightarrow> (case eval_texts ops n ts s' of (rs, s'') \<Rightarrow> (r # rs, s'')))"

section \<open>Printer\<close>

text \<open>\<^verbatim>\<open>static_cast<char>(kind)\<close>: the value of the enumerator.\<close>

definition kind_char :: "Kind \<Rightarrow> char" where
  "kind_char k =
     (case k of
        KInclude \<Rightarrow> CHR 0x00 | KBegin \<Rightarrow> CHR 0x01 | KCat \<Rightarrow> CHR 0x02 | KCons \<Rightarrow> CHR 0x03
      | KCar \<Rightarrow> CHR 0x04 | KCdr \<Rightarrow> CHR 0x05 | KList \<Rightarrow> CHR 0x06 | KLet \<Rightarrow> CHR 0x07
      | KDefine \<Rightarrow> CHR ''d'' | KLambda \<Rightarrow> CHR ''l'' | KNumber \<Rightarrow> CHR ''#'' | KName \<Rightarrow> CHR ''n''
      | KExpr \<Rightarrow> CHR ''e'' | KProc \<Rightarrow> CHR ''p'' | KFalse \<Rightarrow> CHR ''f'' | KTrue \<Rightarrow> CHR ''t''
      | KCond \<Rightarrow> CHR ''c'' | KElse \<Rightarrow> CHR '','' | KEnd \<Rightarrow> CHR ''.'' | KEmpty \<Rightarrow> CHR '' ''
      | KQuote \<Rightarrow> CHR 0x27 | KLp \<Rightarrow> CHR ''('' | KRp \<Rightarrow> CHR '')'' | KAnd \<Rightarrow> CHR ''&''
      | KNot \<Rightarrow> CHR ''!'' | KOr \<Rightarrow> CHR ''|'' | KMul \<Rightarrow> CHR ''*'' | KAdd \<Rightarrow> CHR ''+''
      | KSub \<Rightarrow> CHR ''-'' | KDiv \<Rightarrow> CHR ''/'' | KLess \<Rightarrow> CHR ''<'' | KEqual \<Rightarrow> CHR ''=''
      | KGreater \<Rightarrow> CHR ''>'' | KComment \<Rightarrow> CHR '';'')"

text \<open>
  The test \<^verbatim>\<open>kind != Number && kind != Name && kind != Expr\<close> of \<^verbatim>\<open>print\<close> and of the
  visitor, with the character it then writes.
\<close>

definition primitive_char :: "Kind \<Rightarrow> string" where
  "primitive_char k = (if k \<noteq> KNumber \<and> k \<noteq> KName \<and> k \<noteq> KExpr then [kind_char k] else [])"

text \<open>
  \<^verbatim>\<open>print_visitor\<close> with its member \<^verbatim>\<open>end\<close>: the text it writes on \<^verbatim>\<open>cout\<close> for a payload.
  \<open>print_elements\<close> is the loop over a non-empty list, which visits every element but the
  last with \<^verbatim>\<open>print_visitor()\<close> and the last with \<^verbatim>\<open>print_visitor("")\<close>.
\<close>

fun print_visitor :: "'d fops \<Rightarrow> string \<Rightarrow> 'd Data \<Rightarrow> string"
  and print_elements :: "'d fops \<Rightarrow> 'd Cell list \<Rightarrow> string"
where
  "print_visitor ops end (DStr str) = str @ end"
| "print_visitor ops end (DNum num) = dshow ops num @ end"
| "print_visitor ops end (DProc proc) = ''proc'' @ end"
| "print_visitor ops end (DList []) = ''()'' @ end"
| "print_visitor ops end (DList (Cell k d # cs)) =
     ''('' @ primitive_char k @ print_elements ops (Cell k d # cs) @ '')'' @ end"
| "print_elements ops [] = []"
| "print_elements ops [Cell k d] = print_visitor ops [] d"
| "print_elements ops (Cell k d # c # cs) = print_visitor ops '' '' d @ print_elements ops (c # cs)"


section \<open>The embedded entry point\<close>

text \<open>
  Modelled from the spec: \<^verbatim>\<open>expr_str\<close> is compiled against the headers \<^verbatim>\<open>parser.h\<close>,
  \<^verbatim>\<open>lexer.h\<close>, \<^verbatim>\<open>environment.h\<close> and \<^verbatim>\<open>error.h\<close> of a library with the namespaces
  \<^verbatim>\<open>Lexer\<close>, \<^verbatim>\<open>Parser\<close> and \<^verbatim>\<open>Environment\<close> and the global pointer \<^verbatim>\<open>outstream\<close>. That
  library is not among the sources (the standalone interpreter modelled above has neither
  the namespaces nor \<^verbatim>\<open>outstream\<close>, and its printer writes on \<^verbatim>\<open>cout\<close>). What \<^verbatim>\<open>expr_str\<close>
  calls of it is taken as the specification describes it, and left open otherwise:

  \<^item> \<open>evaluate\<close> is \<^verbatim>\<open>cs.set_input(in); eval(expr(true), &e0)\<close>: it reads one top-level
    expression from the text and evaluates it on the globals. It returns the value with
    the side-effect output of the evaluation (section 6 of the specification), which is
    taken to go through \<^verbatim>\<open>outstream\<close>, or the exception thrown; and the globals as the
    evaluation leaves them.
  \<^item> \<open>printed\<close> is the printed form of a value (section 4.6), which
    \<^verbatim>\<open>*outstream << res\<close> is taken to write on the stream \<^verbatim>\<open>outstream\<close> points to.
\<close>

record 'd library =
  evaluate :: "string \<Rightarrow> 'd interp \<Rightarrow> (error + 'd Cell \<times> string) \<times> 'd interp"
  printed :: "'d Cell \<Rightarrow> string"

text \<open>
  What lasts from one call of \<^verbatim>\<open>expr_str\<close> to the next: the static \<^verbatim>\<open>inited\<close> and the
  globals of the interpreter.
\<close>

record 'd module =
  inited :: bool
  globals :: "'d interp"


text \<open>\<^verbatim>\<open>init_env\<close>: \<^verbatim>\<open>envs.push_back(e0)\<close> puts a copy of \<^verbatim>\<open>e0\<close> on the vector.\<close>

definition init_env :: "'d interp \<Rightarrow> 'd interp" where
  "init_env s = s\<lparr>envs := envs s @ [envs s ! e0]\<rparr>"

text \<open>
  \<^verbatim>\<open>expr_str\<close>. The stream \<^verbatim>\<open>out\<close> is empty when \<^verbatim>\<open>outstream\<close> is pointed at it; the
  evaluation writes its output on it, then \<^verbatim>\<open>*outstream << res\<close> the printed result.
  The result is the string \<^verbatim>\<open>out.str()\<close>, or the exception that leaves the function,
  and with it \<^verbatim>\<open>out\<close>.
\<close>

definition expr_str :: "'d library \<Rightarrow> string \<Rightarrow> 'd module \<Rightarrow> (error + string) \<times> 'd module" where
  "expr_str lib input m =
     (let s0 = (if \<not> inited m then init_env (globals m) else globals m);
          out = []
      in case evaluate lib input s0 of
           (Inl e, s') \<Rightarrow> (Inl e, \<lparr>inited = True, globals = s'\<rparr>)
         | (Inr (res, written), s') \<Rightarrow>
             (Inr ((out @ written) @ printed lib res), \<lparr>inited = True, globals = s'\<rparr>))"


section \<open>What an evaluation changes in the environments\<close>

text \<open>
  \<open>replay a log m\<close> is the map \<open>m\<close> of the frame at address \<open>a\<close> after the assignments of
  \<open>log\<close> have been made in their order: those to other frames leave it as it is.
  \<open>defined_since s s'\<close> is what the history of \<open>s'\<close> holds after that of \<open>s\<close>.
\<close>

definition replay ::
  "nat \<Rightarrow> (nat \<times> string \<times> 'd Cell) list \<Rightarrow> (string \<times> 'd Cell) list \<Rightarrow> (string \<times> 'd Cell) list" where
  "replay a log m = fold (\<lambda>(a', name, v) m'. if a' = a then AList.update name v m' else m') log m"

definition defined_since :: "'d interp \<Rightarrow> 'd interp \<Rightarrow> (nat \<times> string \<times> 'd Cell) list" where
  "defined_since s s' = drop (length (assignments s)) (assignments s')"

text \<open>
  From \<open>s\<close> to \<open>s'\<close> the environments have changed by defines only: the history has grown,
  every frame of \<open>s\<close> is a frame of \<open>s'\<close>, and its map in \<open>s'\<close> is its map in \<open>s\<close> after the
  assignments that the history has grown by.
\<close>

definition only_defines :: "'d interp \<Rightarrow> 'd interp \<Rightarrow> bool" where
  "only_defines s s' \<longleftrightarrow>
     length (envs s) \<le> length (envs s')
     \<and> assignments s' = assignments s @ defined_since s s'
     \<and> (\<forall>a < length (envs s).
           env_map (envs s' ! a) = replay a (defined_since s s') (env_map (envs s ! a)))"


section \<open>Unfolding the evaluator\<close>

declare show_nat.simps [simp del]

lemma evaluator_calls [simp]:
  "c_eval (evaluator ops n) = eval ops n"
  "c_evlist_loop (evaluator ops n) = evlist_loop ops n"
  "c_eval_define (evaluator ops n) = eval_define ops n"
  "c_eval_let (evaluator ops n) = eval_let ops n"
  "c_let_loop (evaluator ops n) = let_loop ops n"
  "c_eval_cond (evaluator ops n) = eval_cond ops n"
  "c_evlist_cond (evaluator ops n) = evlist_cond ops n"
  "c_eval_call (evaluator ops n) = eval_call ops n"
  "c_apply_proc (evaluator ops n) = apply_proc ops n"
  by (simp_all add: eval_def evlist_loop_def eval_define_def eval_let_def let_loop_def
      eval_cond_def evlist_cond_def eval_call_def apply_proc_def)

lemma fuel_0:
  "eval ops 0 ex env s = (Inl OutOfFuel, s)"
  "evlist_loop ops 0 ex res env s = (Inl OutOfFuel, s)"
  "eval_define ops 0 rest env s = (Inl OutOfFuel, s)"
  "eval_let ops 0 rest env s = (Inl OutOfFuel, s)"
  "let_loop ops 0 pairs m env s = (Inl OutOfFuel, s)"
  "eval_cond ops 0 clauses env s = (Inl OutOfFuel, s)"
  "evlist_cond ops 0 clauses res env s = (Inl OutOfFuel, s)"
  "eval_call ops 0 x rest env s = (Inl OutOfFuel, s)"
  "apply_proc ops 0 c args s = (Inl OutOfFuel, s)"
  by (simp_all add: eval_def evlist_loop_def eval_define_def eval_let_def let_loop_def
      eval_cond_def evlist_cond_def eval_call_def apply_proc_def)

lemma fuel_Suc:
  "eval ops (Suc n) = eval_body ops (evaluator ops n)"
  "evlist_loop ops (Suc n) = evlist_loop_body ops (evaluator ops n)"
  "eval_define ops (Suc n) = eval_define_body ops (evaluator ops n)"
  "eval_let ops (Suc n) = eval_let_body ops (evaluator ops n)"
  "let_loop ops (Suc n) = let_loop_body ops (evaluator ops n)"
  "eval_cond ops (Suc n) = eval_cond_body ops (evaluator ops n)"
  "evlist_cond ops (Suc n) = evlist_cond_body ops (evaluator ops n)"
  "eval_call ops (Suc n) = eval_call_body ops (evaluator ops n)"
  "apply_proc ops (Suc n) = apply_proc_body ops (evaluator ops n)"
  by (simp_all add: eval_def evlist_loop_def eval_define_def eval_let_def let_loop_def
      eval_cond_def evlist_cond_def eval_call_def apply_proc_def Let_def)

declare evaluator.simps [simp del]

lemma fuel_numeral:
  "eval ops (numeral k) = eval_body ops (evaluator ops (pred_numeral k))"
  "evlist_loop ops (numeral k) = evlist_loop_body ops (evaluator ops (pred_numeral k))"
  "eval_define ops (numeral k) = eval_define_body ops (evaluator ops (pred_numeral k))"
  "eval_let ops (numeral k) = eval_let_body ops (evaluator ops (pred_numeral k))"
  "let_loop ops (numeral k) = let_loop_body ops (evaluator ops (pred_numeral k))"
  "eval_cond ops (numeral k) = eval_cond_body ops (evaluator ops (pred_numeral k))"
  "evlist_cond ops (numeral k) = evlist_cond_body ops (evaluator ops (pred_numeral k))"
  "eval_call ops (numeral k) = eval_call_body ops (evaluator ops (pred_numeral k))"
  "apply_proc ops (numeral k) = apply_proc_body ops (evaluator ops (pred_numeral k))"
  by (simp_all add: numeral_eq_Suc fuel_Suc)

lemma fuel_1:
  "eval ops 1 = eval_body ops (evaluator ops 0)"
  "evlist_loop ops 1 = evlist_loop_body ops (evaluator ops 0)"
  "eval_define ops 1 = eval_define_body ops (evaluator ops 0)"
  "eval_let ops 1 = eval_let_body ops (evaluator ops 0)"
  "let_loop ops 1 = let_loop_body ops (evaluator ops 0)"
  "eval_cond ops 1 = eval_cond_body ops (evaluator ops 0)"
  "evlist_cond ops 1 = evlist_cond_body ops (evaluator ops 0)"
  "eval_call ops 1 = eval_call_body ops (evaluator ops 0)"
  "apply_proc ops 1 = apply_proc_body ops (evaluator ops 0)"
  by (simp_all only: One_nat_def fuel_Suc)

lemmas run_fuel = fuel_numeral fuel_1 fuel_Suc fuel_0

lemmas run_bodies =
  eval_body_def evlist_loop_body_def eval_define_body_def eval_let_body_def let_loop_body_def
  eval_cond_body_def evlist_cond_body_def eval_call_body_def apply_proc_body_def

lemmas run_cells =
  Cell_kind_def Cell_default_def Cell_bool_def Cell_double_def Cell_string_def Cell_proc_def
  Cell_list_def truthy_def get_string_def get_double_def get_Proc_def get_List_def unwrap_def
  is_prim_def

lemmas run_prims = apply_prim_def arith_def compare_def store_operand_def

lemmas run_state =
  eval_lambda_def new_proc_def new_env_def end_lifetime_def assign_def lookup_def deref_def
  bind_def set_input_def init_interp_def e0_def

lemmas run_congs =
  if_weak_cong let_weak_cong prod.case_cong_weak sum.case_cong_weak list.case_cong_weak
  option.case_cong_weak

lemma parse_fuel:
  "eat_first ops (numeral k) cs =
     (let cs1 = get ops cs in
      if kind (ct cs1) = KComment then eat_first ops (pred_numeral k) (ignoreln cs1) else Inr cs1)"
  "expr_loop ops (numeral k) res cs =
     (let cs1 = get ops cs in
      if kind (ct cs1) = KLp then
        (case expr_loop ops (pred_numeral k) [] cs1 of
           (Inl e, cs2) \<Rightarrow> (Inl e, cs2)
         | (Inr l, cs2) \<Rightarrow>
             if kind (ct cs2) \<noteq> KRp then (Inl (RuntimeError (CHR 0x27 # '')'' @ CHR 0x27 # '' expected'')), cs2)
             else expr_loop ops (pred_numeral k) (res @ [Cell_list l]) cs2)
      else if kind (ct cs1) = KEnd \<or> kind (ct cs1) = KRp then (Inr res, cs1)
      else if kind (ct cs1) = KComment then expr_loop ops (pred_numeral k) res (ignoreln cs1)
      else expr_loop ops (pred_numeral k) (res @ [ct cs1]) cs1)"
  by (simp_all add: numeral_eq_Suc)

lemmas run_lexer =
  parse_fuel eval_text_def expr_def get_def read_word_def strip_rp_def isspace_def
  keyword_start_def single_char_kind_def keywords_map_def isdigit_def ignoreln_def

lemmas run_all = run_lexer run_fuel run_bodies run_cells run_prims run_state int_ops_def

section \<open>The primitives \<^verbatim>\<open>car\<close>, \<^verbatim>\<open>cdr\<close>, \<^verbatim>\<open><\<close>, \<^verbatim>\<open>>\<close> and \<^verbatim>\<open>=\<close>\<close>

text \<open>
  C10. \<^verbatim>\<open>car\<close> returns an argument that is not of kind \<^verbatim>\<open>Expr\<close> as it is, and the first
  element of a non-empty list; on the empty list it subscripts position 0 of an empty
  vector, which is undefined. The source text \<^verbatim>\<open>(car '())\<close> reaches that case.
\<close>

theorem car_defined_iff_nonempty:
  "(kind a \<noteq> KExpr \<longrightarrow> apply_prim ops u (Cell KCar d) [a] = Inr a)
   \<and> apply_prim ops u (Cell KCar d) [Cell KExpr (DList (x # xs))] = Inr x
   \<and> apply_prim ops u (Cell KCar d) [Cell KExpr (DList [])] = Inl (Undefined OutOfRange)
   \<and> eval_text int_ops 5 ''(car '())'' init_interp = (Inl (Undefined OutOfRange), init_interp)"
proof -
  have "eval_text int_ops 5 ''(car '())'' init_interp = (Inl (Undefined OutOfRange), init_interp)"
    by (simp add: run_all cong: run_congs)
  then show ?thesis
    by (simp add: apply_prim_def get_List_def)
qed

theorem car_defined_iff_nonempty_witness:
  "kind (Cell_string ''a'' :: int Cell) \<noteq> KExpr
   \<and> apply_prim int_ops (dunset int_ops []) (Cell_kind KCar) [Cell_string ''a'']
       = Inr (Cell_string ''a'')"
  using car_defined_iff_nonempty
    [where a = "Cell_string ''a''" and ops = int_ops and u = "dunset int_ops []" and d = "DStr []"]
  by (simp add: Cell_string_def Cell_kind_def)

text \<open>
  C7. \<^verbatim>\<open>cdr\<close> of the empty list: the sizes 1 and 2 are tested and size 0 is not, so the
  last \<^verbatim>\<open>return\<close> builds a vector from \<^verbatim>\<open>list.begin() + 1\<close>, which lies after
  \<^verbatim>\<open>list.end()\<close>. The source text \<^verbatim>\<open>(cdr '())\<close> reaches that case.
\<close>

theorem cdr_empty_list_undefined:
  "apply_prim ops u (Cell KCdr d) [Cell_list []] = Inl (Undefined InvalidRange)
   \<and> eval_text int_ops 5 ''(cdr '())'' init_interp = (Inl (Undefined InvalidRange), init_interp)"
proof -
  have "eval_text int_ops 5 ''(cdr '())'' init_interp = (Inl (Undefined InvalidRange), init_interp)"
    by (simp add: run_all cong: run_congs)
  then show ?thesis
    by (simp add: apply_prim_def get_List_def Cell_list_def)
qed

text \<open>The other cases of \<^verbatim>\<open>cdr\<close> are as C7 states them.\<close>

lemma cdr_other_cases:
  "kind a \<noteq> KExpr \<Longrightarrow> apply_prim ops u (Cell KCdr d) [a] = Inr (Cell_list [])"
  "apply_prim ops u (Cell KCdr d) [Cell KExpr (DList [x])] = Inr (Cell_list [])"
  "apply_prim ops u (Cell KCdr d) [Cell KExpr (DList [x, y])] = Inr y"
  "apply_prim ops u (Cell KCdr d) [Cell KExpr (DList (x # y # z # l))] = Inr (Cell_list (y # z # l))"
  by (simp_all add: apply_prim_def get_List_def)

text \<open>
  \<^verbatim>\<open>>\<close> on the arguments \<open>a\<close>, \<open>b\<close> builds its visitor from \<open>b\<close> and visits \<open>a\<close>, as \<^verbatim>\<open><\<close> on
  \<open>b\<close>, \<open>a\<close> does: with the same content of the unset members the two calls return the
  same cell, or the same error.
\<close>

lemma greater_is_less_swapped_same_unset:
  "apply_prim ops u (Cell KGreater d) [a, b] = apply_prim ops u (Cell KLess d') [b, a]"
  by (simp add: apply_prim_def)

text \<open>
  C9, as stated, fails. The two calls build two visitors, and each has unset members of
  its own. On the number \<open>1\<close> and the name \<open>a\<close> the visitor is built from the string and
  visits the \<^verbatim>\<open>double\<close>: it compares what its member \<^verbatim>\<open>num\<close> holds with \<open>1\<close>. Where one
  visitor holds \<open>0\<close> and the other \<open>5\<close>, \<^verbatim>\<open>>\<close> returns \<^verbatim>\<open>True\<close> and \<^verbatim>\<open><\<close> on the swapped
  arguments returns \<^verbatim>\<open>False\<close>.
\<close>

theorem greater_and_less_read_unset_num:
  "apply_prim int_ops \<lparr>unset_num = 0, unset_proc = 0, through_unset_proc = Inr False\<rparr>
      (Cell_kind KGreater) [Cell_double 1, Cell_string ''a'']
     = Inr (Cell_kind KTrue)
   \<and> apply_prim int_ops \<lparr>unset_num = 5, unset_proc = 0, through_unset_proc = Inr False\<rparr>
        (Cell_kind KLess) [Cell_string ''a'', Cell_double 1]
       = Inr (Cell_kind KFalse)
   \<and> reads_unset (Cell_string ''a'') (Cell_double (1::int))"
  by (simp add: run_prims run_cells int_ops_def reads_unset_def)

text \<open>
  C9. Where the comparison reads no unset member of its visitor, \<^verbatim>\<open>>\<close> on the arguments
  \<open>a\<close>, \<open>b\<close> returns what \<^verbatim>\<open><\<close> returns on \<open>b\<close>, \<open>a\<close>, the same cell or the same error,
  whatever the unset members of the two visitors hold.
\<close>

theorem greater_is_less_swapped:
  assumes "\<not> reads_unset b a"
  shows "apply_prim ops u (Cell KGreater d) [a, b] = apply_prim ops u' (Cell KLess d') [b, a]"
proof -
  have "compare (less_visitor ops u) b a = compare (less_visitor ops u') b a"
  proof (cases "store_operand b")
    case (Inl e)
    then show ?thesis by (simp add: compare_def)
  next
    case (Inr st)
    have "less_visitor ops u st (data a) = less_visitor ops u' st (data a)"
    proof (cases "data a")
      case (DNum n)
      with assms Inr obtain m where "st = StoredNum m"
        by (cases st) (simp_all add: reads_unset_def)
      with DNum show ?thesis by simp
    next
      case (DProc p)
      with assms Inr show ?thesis by (simp add: reads_unset_def)
    next
      case (DStr x)
      then show ?thesis by (cases st) simp_all
    next
      case (DList l)
      then show ?thesis by simp
    qed
    with Inr show ?thesis by (simp add: compare_def)
  qed
  then show ?thesis by (simp add: apply_prim_def)
qed

theorem greater_is_less_swapped_witness:
  "\<not> reads_unset (Cell_double (1::int)) (Cell_double 2)
   \<and> apply_prim int_ops \<lparr>unset_num = 0, unset_proc = 0, through_unset_proc = Inr False\<rparr>
        (Cell_kind KGreater) [Cell_double 2, Cell_double 1]
       = apply_prim int_ops \<lparr>unset_num = 5, unset_proc = 0, through_unset_proc = Inr False\<rparr>
           (Cell_kind KLess) [Cell_double 1, Cell_double 2]"
  using greater_is_less_swapped
    [where a = "Cell_double 2" and b = "Cell_double (1::int)" and ops = int_ops
       and u = "\<lparr>unset_num = 0, unset_proc = 0, through_unset_proc = Inr False\<rparr>"
       and u' = "\<lparr>unset_num = 5, unset_proc = 0, through_unset_proc = Inr False\<rparr>"
       and d = "DStr []" and d' = "DStr []"]
  by (simp add: reads_unset_def store_operand_def get_double_def Cell_double_def Cell_kind_def)

text \<open>
  C5. \<^verbatim>\<open>=\<close> takes \<^verbatim>\<open>get<string>\<close> of a first argument whose kind is not \<^verbatim>\<open>Number\<close>; on a
  procedure or a list that is \<^verbatim>\<open>boost::bad_get\<close>, whatever the second argument is. So
  two identical procedures and two equal lists do not compare equal: the comparison
  throws, as the source text \<^verbatim>\<open>(= (list 1 2) (list 1 2))\<close> does.
\<close>

theorem equal_on_procs_and_lists_throws:
  "apply_prim ops u (Cell KEqual d) [Cell_proc p, Cell_proc p] = Inl BadGet
   \<and> apply_prim ops u (Cell KEqual d) [Cell_list l, Cell_list l] = Inl BadGet
   \<and> eval_text int_ops 8 ''(= (list 1 2) (list 1 2))'' init_interp = (Inl BadGet, init_interp)"
proof -
  have "eval_text int_ops 8 ''(= (list 1 2) (list 1 2))'' init_interp = (Inl BadGet, init_interp)"
    by (simp add: run_all cong: run_congs)
  then show ?thesis
    by (simp add: apply_prim_def compare_def store_operand_def get_string_def
        Cell_proc_def Cell_list_def)
qed

text \<open>On numbers and on strings \<^verbatim>\<open>=\<close> is as C5 states it.\<close>

lemma equal_on_numbers_and_strings:
  "apply_prim ops u (Cell KEqual d) [Cell_double x, Cell_double y] = Inr (Cell_bool (dequal ops x y))"
  "apply_prim ops u (Cell KEqual d) [Cell_string v, Cell_string w] = Inr (Cell_bool (v = w))"
  by (simp_all add: apply_prim_def compare_def store_operand_def get_string_def get_double_def
      Cell_double_def Cell_string_def)

section \<open>The keyword \<^verbatim>\<open>not\<close>, \<^verbatim>\<open>cond\<close> without a match, closures of \<^verbatim>\<open>let\<close>\<close>

text \<open>
  C1. The table \<^verbatim>\<open>keywords\<close> sends the spelling \<^verbatim>\<open>not\<close> to \<^verbatim>\<open>Kind::Or\<close>. The expression
  \<^verbatim>\<open>(empty? 'a)\<close> evaluates to \<^verbatim>\<open>False\<close>, and \<^verbatim>\<open>(not (empty? 'a))\<close> evaluates to \<^verbatim>\<open>False\<close>
  too, where negation gives \<^verbatim>\<open>True\<close>. The spelling \<^verbatim>\<open>!\<close>, which the lexer sends to
  \<^verbatim>\<open>Kind::Not\<close>, negates.
\<close>

theorem not_is_lexed_as_or:
  "map_of keywords_map ''not'' = Some KOr
   \<and> eval_text int_ops 20 ''(empty? 'a)'' init_interp = (Inr (Cell_kind KFalse), init_interp)
   \<and> eval_text int_ops 20 ''(not (empty? 'a))'' init_interp = (Inr (Cell_kind KFalse), init_interp)
   \<and> eval_text int_ops 20 ''(! (empty? 'a))'' init_interp = (Inr (Cell_kind KTrue), init_interp)"
proof -
  have "map_of keywords_map ''not'' = Some KOr"
    by (simp add: keywords_map_def)
  moreover have
    "eval_text int_ops 20 ''(empty? 'a)'' init_interp = (Inr (Cell_kind KFalse), init_interp)"
    by (simp add: run_all cong: run_congs)
  moreover have
    "eval_text int_ops 20 ''(not (empty? 'a))'' init_interp = (Inr (Cell_kind KFalse), init_interp)"
    by (simp add: run_all cong: run_congs)
  moreover have
    "eval_text int_ops 20 ''(! (empty? 'a))'' init_interp = (Inr (Cell_kind KTrue), init_interp)"
    by (simp add: run_all cong: run_congs)
  ultimately show ?thesis
    by blast
qed

text \<open>
  C2. A \<^verbatim>\<open>cond\<close> with no \<^verbatim>\<open>else\<close> whose predicates are all \<^verbatim>\<open>False\<close>. In \<^verbatim>\<open>eval\<close> the
  \<^verbatim>\<open>while\<close> loop of the \<^verbatim>\<open>Cond\<close> case ends with \<^verbatim>\<open>p == expr.end()\<close> and, with no \<^verbatim>\<open>break\<close>
  after it, control falls into the case of the primitives, which reads \<^verbatim>\<open>p->kind\<close>.
  In \<^verbatim>\<open>evlist\<close> the \<^verbatim>\<open>break\<close> is there, and the \<^verbatim>\<open>++p\<close> of the \<^verbatim>\<open>for\<close> loop then moves
  \<^verbatim>\<open>p\<close> past \<^verbatim>\<open>expr.end()\<close>. Neither returns the \<^verbatim>\<open>End\<close> cell.
\<close>

theorem cond_without_match_is_undefined:
  "eval_text int_ops 20 ''(cond ((empty? 'a) 'b))'' init_interp
     = (Inl (Undefined EndDeref), init_interp)
   \<and> eval_text int_ops 20 ''(list (cond ((empty? 'a) 'b)))'' init_interp
     = (Inl (Undefined PastEnd), init_interp)"
proof -
  have "eval_text int_ops 20 ''(cond ((empty? 'a) 'b))'' init_interp
          = (Inl (Undefined EndDeref), init_interp)"
    by (simp add: run_all cong: run_congs)
  moreover have "eval_text int_ops 20 ''(list (cond ((empty? 'a) 'b)))'' init_interp
          = (Inl (Undefined PastEnd), init_interp)"
    by (simp add: run_all cong: run_congs)
  ultimately show ?thesis
    by blast
qed

text \<open>
  C3. A procedure made by \<^verbatim>\<open>lambda\<close> in the body of a \<^verbatim>\<open>let\<close> keeps the address of
  \<^verbatim>\<open>localenv\<close>, an automatic variable of the \<^verbatim>\<open>Let\<close> case that is gone when the \<^verbatim>\<open>let\<close>
  has returned (the line \<^verbatim>\<open>envs.push_back(localenv)\<close> is commented out). Applied after
  that, the procedure looks its free variable up through the dangling pointer.
\<close>

theorem let_frame_is_not_retained:
  "fst (eval_texts int_ops 40
          [''(define f (let ((a 1)) (lambda (x) (+ a x))))'', ''(f 2)''] init_interp)
     = [Inr (Cell_proc 0), Inl (Undefined Dangling)]"
  by (simp add: run_all cong: run_congs)

text \<open>
  The frames that \<^verbatim>\<open>bind\<close> makes are pushed on \<^verbatim>\<open>envs\<close> and stay: a procedure made in the
  body of another procedure finds its free variable.
\<close>

lemma bind_frame_is_retained:
  "fst (eval_texts int_ops 40
          [''(define (mk a) (lambda (x) (+ a x)))'', ''(define g (mk 1))'', ''(g 2)''] init_interp)
     = [Inr (Cell_proc 0), Inr (Cell_proc 1), Inr (Cell_double 3)]"
  by (simp add: run_all cong: run_congs)

section \<open>Errors and the global environment\<close>


text \<open>What the evaluator changes in the environments, step by step.\<close>

lemma nth_list_update_if: "j < length xs \<Longrightarrow> xs[i := x] ! j = (if i = j then x else xs ! j)"
  by (simp add: nth_list_update)

lemma replay_Nil [simp]: "replay a [] m = m"
  by (simp add: replay_def)

lemma replay_append [simp]: "replay a (log @ log') m = replay a log' (replay a log m)"
  by (simp add: replay_def)

lemma replay_Cons [simp]:
  "replay a ((a', name, v) # log) m = replay a log (if a' = a then AList.update name v m else m)"
  by (simp add: replay_def)


lemma only_definesI:
  assumes "length (envs s) \<le> length (envs s')"
    and "assignments s' = assignments s @ new"
    and "\<And>a. a < length (envs s) \<Longrightarrow> env_map (envs s' ! a) = replay a new (env_map (envs s ! a))"
  shows "only_defines s s'"
  using assms by (simp add: only_defines_def defined_since_def)

lemma only_defines_refl [simp]: "only_defines s s"
  by (rule only_definesI [where new = "[]"]) simp_all

lemma only_defines_trans:
  assumes "only_defines s s'" and "only_defines s' s''"
  shows "only_defines s s''"
proof (rule only_definesI [where new = "defined_since s s' @ defined_since s' s''"])
  from assms show "length (envs s) \<le> length (envs s'')"
    by (simp add: only_defines_def)
  from assms have "assignments s' = assignments s @ defined_since s s'"
    and "assignments s'' = assignments s' @ defined_since s' s''"
    by (simp_all add: only_defines_def)
  then show "assignments s'' = assignments s @ defined_since s s' @ defined_since s' s''"
    by simp
  fix a
  assume a: "a < length (envs s)"
  with assms(1) have a': "a < length (envs s')"
    by (simp add: only_defines_def)
  from assms(1) a have "env_map (envs s' ! a) = replay a (defined_since s s') (env_map (envs s ! a))"
    by (simp add: only_defines_def)
  moreover from assms(2) a'
  have "env_map (envs s'' ! a) = replay a (defined_since s' s'') (env_map (envs s' ! a))"
    by (simp add: only_defines_def)
  ultimately
  show "env_map (envs s'' ! a)
          = replay a (defined_since s s' @ defined_since s' s'') (env_map (envs s ! a))"
    by simp
qed


lemma only_defines_set_input [simp]: "only_defines s (set_input path s)"
  by (rule only_definesI [where new = "[]"]) (simp_all add: set_input_def)

lemma only_defines_new_proc: "new_proc ps b env s = (c, s') \<Longrightarrow> only_defines s s'"
  by (rule only_definesI [where new = "[]"]) (auto simp: new_proc_def)

lemma only_defines_new_env: "new_env m out s = (a, s') \<Longrightarrow> only_defines s s'"
  by (rule only_definesI [where new = "[]"]) (auto simp: new_env_def nth_append)

lemma only_defines_end_lifetime [simp]: "only_defines s (end_lifetime a s)"
  by (rule only_definesI [where new = "[]"]) (simp_all add: end_lifetime_def nth_list_update_if)

lemma assign_cases:
  "assign a name v s = (Inl (Undefined Dangling), s)
   \<or> assign a name v s
       = (Inr v, s\<lparr>envs := (envs s)[a := (envs s ! a)\<lparr>env_map := AList.update name v (env_map (envs s ! a))\<rparr>],
                   assignments := assignments s @ [(a, name, v)]\<rparr>)"
  by (simp add: assign_def deref_def)

lemma only_defines_assign:
  assumes "assign a name v s = (r, s')"
  shows "only_defines s s'"
proof -
  from assign_cases [of a name v s] assms
  consider "s' = s"
    | "s' = s\<lparr>envs := (envs s)[a := (envs s ! a)\<lparr>env_map := AList.update name v (env_map (envs s ! a))\<rparr>],
               assignments := assignments s @ [(a, name, v)]\<rparr>"
    by auto
  then show ?thesis
  proof cases
    case 1
    then show ?thesis by simp
  next
    case 2
    show ?thesis
      by (rule only_definesI [where new = "[(a, name, v)]"]) (simp_all add: 2 nth_list_update_if)
  qed
qed

lemma only_defines_bind: "bind ps args env s = (r, s') \<Longrightarrow> only_defines s s'"
  by (auto simp: bind_def split: if_splits sum.splits prod.splits dest: only_defines_new_env)

lemma only_defines_eval_lambda: "eval_lambda rest env s = (r, s') \<Longrightarrow> only_defines s s'"
  by (auto simp: eval_lambda_def split: if_splits sum.splits prod.splits dest: only_defines_new_proc)

lemma defines_then:
  assumes "only_defines s0 s"
  shows "only_defines s0 (set_input path s)"
    and "only_defines s0 (end_lifetime a s)"
    and "new_proc ps b env s = (c, s') \<Longrightarrow> only_defines s0 s'"
    and "new_env m out s = (a, s') \<Longrightarrow> only_defines s0 s'"
    and "assign a name v s = (r, s') \<Longrightarrow> only_defines s0 s'"
    and "bind ps args env s = (ra, s') \<Longrightarrow> only_defines s0 s'"
    and "eval_lambda rest env s = (r, s') \<Longrightarrow> only_defines s0 s'"
proof -
  show "only_defines s0 (set_input path s)"
    by (rule only_defines_trans [OF assms]) simp
  show "only_defines s0 (end_lifetime a s)"
    by (rule only_defines_trans [OF assms]) simp
  show "new_proc ps b env s = (c, s') \<Longrightarrow> only_defines s0 s'"
    by (rule only_defines_trans [OF assms]) (rule only_defines_new_proc)
  show "new_env m out s = (a, s') \<Longrightarrow> only_defines s0 s'"
    by (rule only_defines_trans [OF assms]) (rule only_defines_new_env)
  show "assign a name v s = (r, s') \<Longrightarrow> only_defines s0 s'"
    by (rule only_defines_trans [OF assms]) (rule only_defines_assign)
  show "bind ps args env s = (ra, s') \<Longrightarrow> only_defines s0 s'"
    by (rule only_defines_trans [OF assms]) (rule only_defines_bind)
  show "eval_lambda rest env s = (r, s') \<Longrightarrow> only_defines s0 s'"
    by (rule only_defines_trans [OF assms]) (rule only_defines_eval_lambda)
qed

lemma defines_then_snd:
  "only_defines s0 s \<Longrightarrow> only_defines s0 (snd (assign a name v s))"
  "only_defines s0 s \<Longrightarrow> only_defines s0 (snd (eval_lambda rest env s))"
  using defines_then(5) [of s0 s a name v "fst (assign a name v s)" "snd (assign a name v s)"]
    defines_then(7) [of s0 s rest env "fst (eval_lambda rest env s)" "snd (eval_lambda rest env s)"]
  by simp_all

lemma evaluator_only_defines:
  "(\<forall>ex env s s0. only_defines s0 s \<longrightarrow> only_defines s0 (snd (eval ops n ex env s)))
   \<and> (\<forall>ex res env s s0. only_defines s0 s \<longrightarrow> only_defines s0 (snd (evlist_loop ops n ex res env s)))
   \<and> (\<forall>rest env s s0. only_defines s0 s \<longrightarrow> only_defines s0 (snd (eval_define ops n rest env s)))
   \<and> (\<forall>rest env s s0. only_defines s0 s \<longrightarrow> only_defines s0 (snd (eval_let ops n rest env s)))
   \<and> (\<forall>pairs m env s s0. only_defines s0 s \<longrightarrow> only_defines s0 (snd (let_loop ops n pairs m env s)))
   \<and> (\<forall>clauses env s s0. only_defines s0 s \<longrightarrow> only_defines s0 (snd (eval_cond ops n clauses env s)))
   \<and> (\<forall>clauses res env s s0. only_defines s0 s \<longrightarrow> only_defines s0 (snd (evlist_cond ops n clauses res env s)))
   \<and> (\<forall>x rest env s s0. only_defines s0 s \<longrightarrow> only_defines s0 (snd (eval_call ops n x rest env s)))
   \<and> (\<forall>c args s s0. only_defines s0 s \<longrightarrow> only_defines s0 (snd (apply_proc ops n c args s)))"
proof (induction n)
  case 0
  show ?case
    by (simp add: fuel_0)
next
  case (Suc n)
  then have iha:
    "\<And>ex env s s0. only_defines s0 s \<Longrightarrow> only_defines s0 (snd (eval ops n ex env s))"
    "\<And>ex res env s s0. only_defines s0 s \<Longrightarrow> only_defines s0 (snd (evlist_loop ops n ex res env s))"
    "\<And>rest env s s0. only_defines s0 s \<Longrightarrow> only_defines s0 (snd (eval_define ops n rest env s))"
    "\<And>rest env s s0. only_defines s0 s \<Longrightarrow> only_defines s0 (snd (eval_let ops n rest env s))"
    "\<And>pairs m env s s0. only_defines s0 s \<Longrightarrow> only_defines s0 (snd (let_loop ops n pairs m env s))"
    "\<And>clauses env s s0. only_defines s0 s \<Longrightarrow> only_defines s0 (snd (eval_cond ops n clauses env s))"
    "\<And>clauses res env s s0. only_defines s0 s \<Longrightarrow> only_defines s0 (snd (evlist_cond ops n clauses res env s))"
    "\<And>x rest env s s0. only_defines s0 s \<Longrightarrow> only_defines s0 (snd (eval_call ops n x rest env s))"
    "\<And>c args s s0. only_defines s0 s \<Longrightarrow> only_defines s0 (snd (apply_proc ops n c args s))"
    by simp_all
  have ihb1: "eval ops n ex env s = (r, s') \<Longrightarrow> only_defines s0 s \<Longrightarrow> only_defines s0 s'"
    for ex env s r s' s0
    using iha(1) [of s0 s] by (metis snd_conv)
  have ihb2: "evlist_loop ops n ex res env s = (r, s') \<Longrightarrow> only_defines s0 s \<Longrightarrow> only_defines s0 s'"
    for ex res env s r s' s0
    using iha(2) [of s0 s] by (metis snd_conv)
  have ihb3: "eval_define ops n rest env s = (r, s') \<Longrightarrow> only_defines s0 s \<Longrightarrow> only_defines s0 s'"
    for rest env s r s' s0
    using iha(3) [of s0 s] by (metis snd_conv)
  have ihb4: "eval_let ops n rest env s = (r, s') \<Longrightarrow> only_defines s0 s \<Longrightarrow> only_defines s0 s'"
    for rest env s r s' s0
    using iha(4) [of s0 s] by (metis snd_conv)
  have ihb5: "let_loop ops n pairs m env s = (r, s') \<Longrightarrow> only_defines s0 s \<Longrightarrow> only_defines s0 s'"
    for pairs m env s r s' s0
    using iha(5) [of s0 s] by (metis snd_conv)
  have ihb6: "eval_cond ops n clauses env s = (r, s') \<Longrightarrow> only_defines s0 s \<Longrightarrow> only_defines s0 s'"
    for clauses env s r s' s0
    using iha(6) [of s0 s] by (metis snd_conv)
  have ihb7: "evlist_cond ops n clauses res env s = (r, s') \<Longrightarrow> only_defines s0 s \<Longrightarrow> only_defines s0 s'"
    for clauses res env s r s' s0
    using iha(7) [of s0 s] by (metis snd_conv)
  have ihb8: "eval_call ops n x rest env s = (r, s') \<Longrightarrow> only_defines s0 s \<Longrightarrow> only_defines s0 s'"
    for x rest env s r s' s0
    using iha(8) [of s0 s] by (metis snd_conv)
  have ihb9: "apply_proc ops n c args s = (r, s') \<Longrightarrow> only_defines s0 s \<Longrightarrow> only_defines s0 s'"
    for c args s r s' s0
    using iha(9) [of s0 s] by (metis snd_conv)
  note ihb = ihb1 ihb2 ihb3 ihb4 ihb5 ihb6 ihb7 ihb8 ihb9
  have s5: "only_defines s0 s \<Longrightarrow> only_defines s0 (snd (let_loop ops (Suc n) pairs m env s))" for pairs m env s s0
    by (auto simp: fuel_Suc let_loop_body_def
        split: list.split sum.split prod.split
        intro: iha ihb defines_then defines_then_snd)
  have s6: "only_defines s0 s \<Longrightarrow> only_defines s0 (snd (eval_cond ops (Suc n) clauses env s))" for clauses env s s0
    by (auto simp: fuel_Suc eval_cond_body_def
        split: list.split sum.split prod.split
        intro: iha ihb defines_then defines_then_snd)
  have s8: "only_defines s0 s \<Longrightarrow> only_defines s0 (snd (eval_call ops (Suc n) x rest env s))" for x rest env s s0
    by (auto simp: fuel_Suc eval_call_body_def
        split: list.split sum.split prod.split
        intro: iha ihb defines_then defines_then_snd)
  have s9: "only_defines s0 s \<Longrightarrow> only_defines s0 (snd (apply_proc ops (Suc n) c args s))" for c args s s0
    by (auto simp: fuel_Suc apply_proc_body_def
        split: list.split sum.split prod.split
        intro: iha ihb defines_then defines_then_snd)
  have s1: "only_defines s0 s \<Longrightarrow> only_defines s0 (snd (eval ops (Suc n) ex env s))" for ex env s s0
    apply (cases ex; simp add: fuel_Suc eval_body_def)
    apply (intro conjI impI;
        (simp split: list.split sum.split prod.split)?;
        (intro conjI impI allI)?;
        (assumption | rule defines_then(1,2) defines_then_snd iha
          | (rule ihb defines_then(3-7) [rotated], assumption))+)
    done
  have s2: "only_defines s0 s \<Longrightarrow> only_defines s0 (snd (evlist_loop ops (Suc n) ex res env s))" for ex res env s s0
    apply (cases ex; simp add: fuel_Suc evlist_loop_body_def)
    apply (intro conjI impI;
        (simp split: list.split sum.split prod.split)?;
        (intro conjI impI allI)?;
        (assumption | rule defines_then(1,2) defines_then_snd iha
          | (rule ihb defines_then(3-7) [rotated], assumption))+)
    done
  have s3: "only_defines s0 s \<Longrightarrow> only_defines s0 (snd (eval_define ops (Suc n) rest env s))" for rest env s s0
    apply (simp add: fuel_Suc eval_define_body_def Let_def split: list.split sum.split prod.split)
    apply ((intro conjI impI allI)?;
        (assumption | rule defines_then(1,2) defines_then_snd iha
          | (rule ihb defines_then(3-7) [rotated], assumption))+)
    done
  have s4: "only_defines s0 s \<Longrightarrow> only_defines s0 (snd (eval_let ops (Suc n) rest env s))" for rest env s s0
    apply (simp add: fuel_Suc eval_let_body_def Let_def split: list.split sum.split prod.split)
    apply ((intro conjI impI allI)?;
        (assumption | rule defines_then(1,2) defines_then_snd iha
          | (rule ihb defines_then(3-7) [rotated], assumption))+)
    done
  have s5: "only_defines s0 s \<Longrightarrow> only_defines s0 (snd (let_loop ops (Suc n) pairs m env s))" for pairs m env s s0
    apply (simp add: fuel_Suc let_loop_body_def Let_def split: list.split sum.split prod.split)
    apply ((intro conjI impI allI)?;
        (assumption | rule defines_then(1,2) defines_then_snd iha
          | (rule ihb defines_then(3-7) [rotated], assumption))+)
    done
  have s6: "only_defines s0 s \<Longrightarrow> only_defines s0 (snd (eval_cond ops (Suc n) clauses env s))" for clauses env s s0
    apply (simp add: fuel_Suc eval_cond_body_def Let_def split: list.split sum.split prod.split)
    apply ((intro conjI impI allI)?;
        (assumption | rule defines_then(1,2) defines_then_snd iha
          | (rule ihb defines_then(3-7) [rotated], assumption))+)
    done
  have s7: "only_defines s0 s \<Longrightarrow> only_defines s0 (snd (evlist_cond ops (Suc n) clauses res env s))" for clauses res env s s0
    apply (simp add: fuel_Suc evlist_cond_body_def Let_def split: list.split sum.split prod.split)
    apply ((intro conjI impI allI)?;
        (assumption | rule defines_then(1,2) defines_then_snd iha
          | (rule ihb defines_then(3-7) [rotated], assumption))+)
    done
  have s8: "only_defines s0 s \<Longrightarrow> only_defines s0 (snd (eval_call ops (Suc n) x rest env s))" for x rest env s s0
    apply (simp add: fuel_Suc eval_call_body_def Let_def split: list.split sum.split prod.split)
    apply ((intro conjI impI allI)?;
        (assumption | rule defines_then(1,2) defines_then_snd iha
          | (rule ihb defines_then(3-7) [rotated], assumption))+)
    done
  have s9: "only_defines s0 s \<Longrightarrow> only_defines s0 (snd (apply_proc ops (Suc n) c args s))" for c args s s0
    apply (simp add: fuel_Suc apply_proc_body_def Let_def split: list.split sum.split prod.split)
    apply ((intro conjI impI allI)?;
        (assumption | rule defines_then(1,2) defines_then_snd iha
          | (rule ihb defines_then(3-7) [rotated], assumption))+)
    done
  show ?case
    by (simp add: s1 s2 s3 s4 s5 s6 s7 s8 s9)
qed

lemma eval_only_defines: "eval ops n ex env s = (r, s') \<Longrightarrow> only_defines s s'"
  using evaluator_only_defines [of ops n] only_defines_refl [of s] by (metis snd_conv)









text \<open>
  An evaluation that has made no assignment, whether it ends with a value or with an
  error, leaves the map of every frame as it was.
\<close>

lemma evaluation_without_define:
  assumes "eval ops n ex env s = (r, s')"
    and "defined_since s s' = []"
    and "a < length (envs s)"
  shows "env_map (envs s' ! a) = env_map (envs s ! a)"
proof -
  from assms(1) have "only_defines s s'"
    by (rule eval_only_defines)
  with assms(2,3) show ?thesis
    by (simp add: only_defines_def)
qed

section \<open>\<^verbatim>\<open>cons\<close> of \<^verbatim>\<open>car\<close> and \<^verbatim>\<open>cdr\<close>\<close>

text \<open>
  C6, as stated, fails on a list of three elements: \<^verbatim>\<open>cdr\<close> returns the tail as one
  list, and \<^verbatim>\<open>cons\<close> returns the list of its two arguments, so the result has two
  elements, the second of them a list.
\<close>

theorem cons_car_cdr_of_three:
  "fst (eval_texts int_ops 40 [''(define l (list 1 2 3))'', ''(cons (car l) (cdr l))''] init_interp)
     = [Inr (Cell_list [Cell_double 1, Cell_double 2, Cell_double 3]),
        Inr (Cell_list [Cell_double 1, Cell_list [Cell_double 2, Cell_double 3]])]"
  by (simp add: run_all cong: run_congs)

text \<open>
  C6, amended. On a list of exactly two elements \<^verbatim>\<open>(cons (car l) (cdr l))\<close> gives back
  the list \<open>l\<close>, cell for cell, since \<^verbatim>\<open>cdr\<close> then returns the second element itself. On a
  longer list it gives the list of two elements whose first is the first element of \<open>l\<close>
  and whose second is the list of the others. The name \<open>x\<close> is bound to the list; six
  steps and any number more are enough. (What \<^verbatim>\<open>=\<close> does on lists is C5.)
\<close>

theorem cons_car_cdr_of_list:
  assumes "lookup s env x = Inr (Cell KExpr (DList l))"
    and "2 \<le> length l"
  shows "eval ops (Suc (Suc (Suc (Suc (Suc (Suc n))))))
           [Cell KCons d0,
            Cell KExpr (DList [Cell KCar d1, Cell KName (DStr x)]),
            Cell KExpr (DList [Cell KCdr d2, Cell KName (DStr x)])] env s
         = (Inr (if length l = 2 then Cell_list l else Cell_list [l ! 0, Cell_list (tl l)]), s)"
proof -
  from assms(2) obtain a b l' where l: "l = a # b # l'"
    by (cases l; cases "tl l") auto
  show ?thesis
    by (simp add: fuel_Suc run_bodies run_cells apply_prim_def assms(1) l cong: run_congs)
qed

theorem cons_car_cdr_of_list_witness:
  "lookup (init_interp\<lparr>envs := [\<lparr>env_map = [(''l'', Cell_list [Cell_double 1, Cell_double 2])],
                                   outer = None, alive = True\<rparr>]\<rparr>) e0 ''l''
     = Inr (Cell KExpr (DList [Cell_double (1::int), Cell_double 2]))
   \<and> 2 \<le> length [Cell_double (1::int), Cell_double 2]
   \<and> eval int_ops 6
        [Cell_kind KCons, Cell_list [Cell_kind KCar, Cell_string ''l''],
         Cell_list [Cell_kind KCdr, Cell_string ''l'']] e0
        (init_interp\<lparr>envs := [\<lparr>env_map = [(''l'', Cell_list [Cell_double 1, Cell_double 2])],
                                  outer = None, alive = True\<rparr>]\<rparr>)
     = (Inr (Cell_list [Cell_double 1, Cell_double 2]),
        init_interp\<lparr>envs := [\<lparr>env_map = [(''l'', Cell_list [Cell_double 1, Cell_double 2])],
                                  outer = None, alive = True\<rparr>]\<rparr>)"
proof -
  let ?s = "init_interp\<lparr>envs := [\<lparr>env_map = [(''l'', Cell_list [Cell_double (1::int), Cell_double 2])],
                                     outer = None, alive = True\<rparr>]\<rparr>"
  have bound: "lookup ?s e0 ''l'' = Inr (Cell KExpr (DList [Cell_double (1::int), Cell_double 2]))"
    by (simp add: run_state run_cells)
  have len: "2 \<le> length [Cell_double (1::int), Cell_double 2]"
    by simp
  from cons_car_cdr_of_list [OF bound len, of int_ops 0 "DStr []" "DStr []" "DStr []"] bound
  show ?thesis
    by (simp add: numeral_eq_Suc Cell_kind_def Cell_list_def Cell_string_def)
qed

section \<open>What a call of the embedded entry point returns\<close>



text \<open>
  A call leaves \<^verbatim>\<open>inited\<close> set, so the call after it evaluates on the globals as the first
  has left them: \<^verbatim>\<open>init_env\<close> runs in the first call only. An exception of the evaluation
  leaves \<^verbatim>\<open>expr_str\<close> with nothing returned.
\<close>

lemma expr_str_inited: "inited (snd (expr_str lib input m))"
  by (auto simp: expr_str_def Let_def split: prod.splits sum.splits)

lemma expr_str_next_call:
  assumes "expr_str lib input m = (r, m')"
    and "evaluate lib input' (globals m') = (Inr (res, written), s')"
  shows "expr_str lib input' m' = (Inr (written @ printed lib res), \<lparr>inited = True, globals = s'\<rparr>)"
proof -
  from assms(1) expr_str_inited [of lib input m] have "inited m'"
    by simp
  with assms(2) show ?thesis
    by (auto simp: expr_str_def Let_def)
qed

lemma expr_str_throws:
  assumes "evaluate lib input (if inited m then globals m else init_env (globals m)) = (Inl e, s')"
  shows "expr_str lib input m = (Inl e, \<lparr>inited = True, globals = s'\<rparr>)"
  using assms by (auto simp: expr_str_def Let_def)

end
